theory Spec2Isabelle
  imports Main "HOL-Library.Multiset"
begin

section \<open>Values, payloads and errors\<close>

text \<open>
  A \<open>Uint8Array\<close> is a list of bytes; Isabelle's \<open>char\<close> is an 8-bit value, so a byte is a
  \<open>char\<close>. JavaScript strings are modelled by their UTF-8 byte sequence.
\<close>

type_synonym bytes = "char list"

text \<open>
  The JavaScript values that cross the converter: \<open>undefined\<close>, \<open>null\<close>, booleans,
  numbers (integers only), strings, arrays, plain objects (own properties in insertion
  order), \<open>Uint8Array\<close> buffers and protobufjs message instances (their namespaced type
  name and fields).
\<close>

datatype jsval =
    Undefined
  | Null
  | Bool bool
  | Num int
  | Str string
  | Arr "jsval list"
  | Obj "(string \<times> jsval) list"
  | Uint8Array bytes
  | Message string "(string \<times> jsval) list"

text \<open>The exceptions thrown by the code under study; \<open>Error\<close> is a plain \<open>new Error(msg)\<close>.\<close>

datatype error =
    ValueError string
  | UnsupportedTypeError
  | DataConverterError string
  | TypeError string
  | IllegalStateError string
  | Error string
  | CancellationError string

text \<open>\<open>Payload\<close>: both fields are optional in the generated interface \<open>IPayload\<close>.\<close>

record payload =
  metadata :: "(string \<times> bytes) list option"
  data :: "bytes option"

text \<open>
  Modelled from the spec: \<open>converter/types.ts\<close> of this revision (the constants
  \<open>METADATA_ENCODING_KEY\<close>, \<open>METADATA_MESSAGE_TYPE_KEY\<close>, \<open>encodingTypes\<close>,
  \<open>encodingKeys\<close> and the helpers \<open>u8\<close>, \<open>str\<close>) is missing from the sources. The
  required metadata key identifies the encoding and structured encodings carry a
  message-type key; \<open>u8\<close>/\<open>str\<close> are the UTF-8 \<open>TextEncoder\<close>/\<open>TextDecoder\<close>, the
  identity on byte-modelled strings, and \<open>str(undefined)\<close> is the empty string.
  \<open>encodingKeys.X\<close> is \<open>u8(encodingTypes.X)\<close>.
\<close>

definition METADATA_ENCODING_KEY :: string where
  "METADATA_ENCODING_KEY = ''encoding''"

definition METADATA_MESSAGE_TYPE_KEY :: string where
  "METADATA_MESSAGE_TYPE_KEY = ''messageType''"

definition METADATA_ENCODING_NULL :: string where
  "METADATA_ENCODING_NULL = ''binary/null''"

definition METADATA_ENCODING_RAW :: string where
  "METADATA_ENCODING_RAW = ''binary/plain''"

definition METADATA_ENCODING_JSON :: string where
  "METADATA_ENCODING_JSON = ''json/plain''"

definition METADATA_ENCODING_PROTOBUF_JSON :: string where
  "METADATA_ENCODING_PROTOBUF_JSON = ''json/protobuf''"

definition METADATA_ENCODING_PROTOBUF :: string where
  "METADATA_ENCODING_PROTOBUF = ''binary/protobuf''"

definition u8 :: "string \<Rightarrow> bytes" where
  "u8 s = s"

definition str :: "bytes option \<Rightarrow> string" where
  "str a = (case a of None \<Rightarrow> [] | Some b \<Rightarrow> b)"

text \<open>
  The host library the code calls: \<open>JSON.stringify\<close>, \<open>JSON.parse\<close>, the protobufjs /
  proto3-json-serializer entry points, the regular-expression engine (whether one of
  \<open>CUTTOFF_STACK_PATTERNS\<close> matches a line) and \<open>String(value)\<close>. They are not code of
  this repository and are parameters of the model. A protobuf \<open>Type\<close> is identified by
  its name.
\<close>

type_synonym ptype = string

record host =
  JSON_stringify :: "jsval \<Rightarrow> error + string"
  JSON_parse :: "string \<Rightarrow> error + jsval"
  proto_encode :: "jsval \<Rightarrow> error + bytes"
  proto_decode :: "ptype \<Rightarrow> bytes \<Rightarrow> error + jsval"
  toProto3JSON :: "jsval \<Rightarrow> error + jsval"
  fromProto3JSON :: "ptype \<Rightarrow> jsval \<Rightarrow> error + jsval"
  cutoff_pattern_test :: "string \<Rightarrow> bool"
  js_String :: "jsval \<Rightarrow> string"

text \<open>
  A protobufjs \<open>Root\<close> is used only through \<open>lookupType\<close>, which returns the type or
  throws.
\<close>

type_synonym root = "string \<Rightarrow> error + ptype"

section \<open>The data converter (converter/data-converter.ts)\<close>

text \<open>
  The abstract class \<open>DataConverter\<close>. \<open>fromPayload\<close> takes \<open>None\<close> when it is called
  with \<open>undefined\<close>, which \<open>fromPayloads\<close> does for an index that names no element.
\<close>

record dataConverter =
  toPayload :: "jsval \<Rightarrow> error + payload"
  fromPayload :: "payload option \<Rightarrow> error + jsval"

record dataConverterWithEncoding = dataConverter +
  encodingType :: string

text \<open>\<open>Array.prototype.map\<close> with a callback that may throw: the first throw aborts.\<close>

fun mapE :: "('a \<Rightarrow> error + 'b) \<Rightarrow> 'a list \<Rightarrow> error + 'b list" where
  "mapE f [] = Inr []"
| "mapE f (x # xs) =
     (case f x of
        Inl e \<Rightarrow> Inl e
      | Inr y \<Rightarrow> (case mapE f xs of Inl e \<Rightarrow> Inl e | Inr ys \<Rightarrow> Inr (y # ys)))"

definition toPayloads :: "'a dataConverter_scheme \<Rightarrow> jsval list \<Rightarrow> error + payload list option"
  where
  "toPayloads dc vals =
     (if length vals = 0 then Inr None
      else (case mapE (toPayload dc) vals of Inl e \<Rightarrow> Inl e | Inr ps \<Rightarrow> Inr (Some ps)))"

text \<open>\<open>payloads[index]\<close>: \<open>undefined\<close> unless the index names an element.\<close>

definition js_index :: "'a list \<Rightarrow> int \<Rightarrow> 'a option" where
  "js_index xs i = (if 0 \<le> i \<and> i < int (length xs) then Some (xs ! nat i) else None)"

definition fromPayloads ::
  "'a dataConverter_scheme \<Rightarrow> int \<Rightarrow> payload list option \<Rightarrow> error + jsval" where
  "fromPayloads dc index payloads =
     (case payloads of
        None \<Rightarrow> Inr Undefined
      | Some ps \<Rightarrow>
          if index \<ge> int (length ps) then Inr Undefined
          else fromPayload dc (js_index ps index))"

text \<open>\<open>CompositeDataConverter\<close>: the constructor fills \<open>converterByEncoding\<close> in chain order.\<close>

definition converterByEncoding ::
  "dataConverterWithEncoding list \<Rightarrow> string \<rightharpoonup> dataConverterWithEncoding" where
  "converterByEncoding converters =
     foldl (\<lambda>m converter. m(encodingType converter \<mapsto> converter)) Map.empty converters"

fun composite_toPayload :: "dataConverterWithEncoding list \<Rightarrow> jsval \<Rightarrow> error + payload" where
  "composite_toPayload [] v = Inl (ValueError ''Cannot serialize'')"
| "composite_toPayload (converter # rest) v =
     (case toPayload converter v of
        Inr result \<Rightarrow> Inr result
      | Inl e \<Rightarrow> if e = UnsupportedTypeError then composite_toPayload rest v else Inl e)"

definition composite_fromPayload ::
  "dataConverterWithEncoding list \<Rightarrow> payload option \<Rightarrow> error + jsval" where
  "composite_fromPayload converters arg =
     (case arg of
        None \<Rightarrow> Inl (TypeError ''Cannot read properties of undefined (reading metadata)'')
      | Some p \<Rightarrow>
          (case metadata p of
             None \<Rightarrow> Inl (ValueError ''Missing payload metadata'')
           | Some md \<Rightarrow>
               (let encoding = str (map_of md METADATA_ENCODING_KEY) in
                case converterByEncoding converters encoding of
                  None \<Rightarrow> Inl (ValueError (''Unknown encoding: '' @ encoding))
                | Some converter \<Rightarrow> fromPayload converter (Some p))))"

definition CompositeDataConverter :: "dataConverterWithEncoding list \<Rightarrow> dataConverter" where
  "CompositeDataConverter converters =
     \<lparr> toPayload = composite_toPayload converters,
       fromPayload = composite_fromPayload converters \<rparr>"

definition arrayFromPayloads ::
  "'a dataConverter_scheme \<Rightarrow> payload list option \<Rightarrow> error + jsval list" where
  "arrayFromPayloads converter content =
     (case content of
        None \<Rightarrow> Inr []
      | Some ps \<Rightarrow> mapE (\<lambda>p. fromPayload converter (Some p)) ps)"

definition mapToPayloads ::
  "'a dataConverter_scheme \<Rightarrow> (string \<times> jsval) list \<Rightarrow> error + (string \<times> payload) list"
  where
  "mapToPayloads converter source =
     mapE (\<lambda>(k, v). case toPayload converter v of Inl e \<Rightarrow> Inl e | Inr p \<Rightarrow> Inr (k, p)) source"

section \<open>The codecs (converter/data-converters.ts)\<close>

definition undefined_fromPayload_arg :: "string \<Rightarrow> error" where
  "undefined_fromPayload_arg field =
     TypeError (''Cannot read properties of undefined (reading '' @ field @ '')'')"

definition UndefinedDataConverter :: dataConverterWithEncoding where
  "UndefinedDataConverter =
     \<lparr> toPayload = (\<lambda>v.
         if v \<noteq> Undefined then Inl UnsupportedTypeError
         else Inr \<lparr> metadata = Some [(METADATA_ENCODING_KEY, u8 METADATA_ENCODING_NULL)],
                    data = None \<rparr>),
       fromPayload = (\<lambda>_. Inr Undefined),
       encodingType = METADATA_ENCODING_NULL \<rparr>"

definition JsonDataConverter :: "host \<Rightarrow> dataConverterWithEncoding" where
  "JsonDataConverter h =
     \<lparr> toPayload = (\<lambda>v.
         if v = Undefined then Inl UnsupportedTypeError
         else (case JSON_stringify h v of
                 Inl e \<Rightarrow> Inl e
               | Inr s \<Rightarrow>
                   Inr \<lparr> metadata = Some [(METADATA_ENCODING_KEY, u8 METADATA_ENCODING_JSON)],
                         data = Some (u8 s) \<rparr>)),
       fromPayload = (\<lambda>arg.
         case arg of
           None \<Rightarrow> Inl (undefined_fromPayload_arg ''data'')
         | Some content \<Rightarrow>
             (case data content of
                None \<Rightarrow> Inl (ValueError ''Got payload with no data'')
              | Some d \<Rightarrow> JSON_parse h (str (Some d)))),
       encodingType = METADATA_ENCODING_JSON \<rparr>"

definition BinaryDataConverter :: dataConverterWithEncoding where
  "BinaryDataConverter =
     \<lparr> toPayload = (\<lambda>v.
         case v of
           Uint8Array b \<Rightarrow>
             Inr \<lparr> metadata = Some [(METADATA_ENCODING_KEY, u8 METADATA_ENCODING_RAW)],
                   data = Some b \<rparr>
         | _ \<Rightarrow> Inl UnsupportedTypeError),
       fromPayload = (\<lambda>arg.
         case arg of
           None \<Rightarrow> Inl (undefined_fromPayload_arg ''data'')
         | Some content \<Rightarrow>
             (case data content of None \<Rightarrow> Inr Undefined | Some d \<Rightarrow> Inr (Uint8Array d))),
       encodingType = METADATA_ENCODING_RAW \<rparr>"

text \<open>
  \<open>ProtobufDataConverter.validatePayload\<close>. \<open>errorMessage(e)?.includes('no such type')\<close>
  is read off the message of the error \<open>lookupType\<close> threw; an error without a message
  (anything but \<open>Error\<close>, \<open>TypeError\<close>, ...) is rethrown.
\<close>

definition str_includes :: "string \<Rightarrow> string \<Rightarrow> bool" where
  "str_includes s sub = (\<exists>i \<in> set [0 ..< Suc (length s)]. take (length sub) (drop i s) = sub)"

fun errorMessage :: "error \<Rightarrow> string option" where
  "errorMessage (ValueError m) = Some m"
| "errorMessage UnsupportedTypeError = Some []"
| "errorMessage (DataConverterError m) = Some m"
| "errorMessage (TypeError m) = Some m"
| "errorMessage (IllegalStateError m) = Some m"
| "errorMessage (Error m) = Some m"
| "errorMessage (CancellationError m) = Some m"

definition validatePayload :: "root option \<Rightarrow> payload option \<Rightarrow> error + (ptype \<times> bytes)" where
  "validatePayload rt arg =
     (case arg of
        None \<Rightarrow> Inl (undefined_fromPayload_arg ''data'')
      | Some content \<Rightarrow>
          (case data content of
             None \<Rightarrow> Inl (ValueError ''Got payload with no data'')
           | Some d \<Rightarrow>
               (case metadata content of
                  None \<Rightarrow>
                    Inl (ValueError (''Got protobuf payload without metadata.''
                                     @ METADATA_MESSAGE_TYPE_KEY))
                | Some md \<Rightarrow>
                    if METADATA_MESSAGE_TYPE_KEY \<notin> fst ` set md
                    then Inl (ValueError (''Got protobuf payload without metadata.''
                                          @ METADATA_MESSAGE_TYPE_KEY))
                    else
                      (case rt of
                         None \<Rightarrow>
                           Inl (DataConverterError
                             ''Unable to deserialize protobuf message without `root` being provided'')
                       | Some lookupType \<Rightarrow>
                           (let messageTypeName = str (map_of md METADATA_MESSAGE_TYPE_KEY) in
                            case lookupType messageTypeName of
                              Inl e \<Rightarrow>
                                if (case errorMessage e of
                                      None \<Rightarrow> False
                                    | Some m \<Rightarrow> str_includes m ''no such type'')
                                then Inl (DataConverterError
                                  (''Got a `'' @ messageTypeName
                                   @ ''` protobuf message but cannot find corresponding message class in `root`''))
                                else Inl e
                            | Inr messageType \<Rightarrow> Inr (messageType, d))))))"

definition constructPayload :: "string \<Rightarrow> string \<Rightarrow> bytes \<Rightarrow> payload" where
  "constructPayload encType messageTypeName message =
     \<lparr> metadata = Some [(METADATA_ENCODING_KEY, u8 encType),
                        (METADATA_MESSAGE_TYPE_KEY, u8 messageTypeName)],
       data = Some message \<rparr>"

text \<open>
  \<open>isProtobufMessage\<close>: a record with an own \<open>$type\<close> property that is a protobufjs
  \<open>Type\<close> (it has function-valued \<open>create\<close>, \<open>encode\<close>, \<open>decode\<close>). Of the values of
  \<open>jsval\<close> only message instances carry functions. \<open>getNamespacedTypeName(value.$type)\<close>
  is the name the instance carries.
\<close>

fun isProtobufMessage :: "jsval \<Rightarrow> bool" where
  "isProtobufMessage (Message _ _) = True"
| "isProtobufMessage _ = False"

fun getNamespacedTypeName :: "jsval \<Rightarrow> string" where
  "getNamespacedTypeName (Message n _) = n"
| "getNamespacedTypeName _ = []"

definition ProtobufBinaryDataConverter :: "host \<Rightarrow> root option \<Rightarrow> dataConverterWithEncoding"
  where
  "ProtobufBinaryDataConverter h rt =
     \<lparr> toPayload = (\<lambda>v.
         if \<not> isProtobufMessage v then Inl UnsupportedTypeError
         else (case proto_encode h v of
                 Inl e \<Rightarrow> Inl e
               | Inr m \<Rightarrow>
                   Inr (constructPayload METADATA_ENCODING_PROTOBUF (getNamespacedTypeName v) m))),
       fromPayload = (\<lambda>arg.
         case validatePayload rt arg of
           Inl e \<Rightarrow> Inl e
         | Inr (messageType, d) \<Rightarrow> proto_decode h messageType d),
       encodingType = METADATA_ENCODING_PROTOBUF \<rparr>"

definition ProtobufJsonDataConverter :: "host \<Rightarrow> root option \<Rightarrow> dataConverterWithEncoding"
  where
  "ProtobufJsonDataConverter h rt =
     \<lparr> toPayload = (\<lambda>v.
         if \<not> isProtobufMessage v then Inl UnsupportedTypeError
         else (case toProto3JSON h v of
                 Inl e \<Rightarrow> Inl e
               | Inr jsonValue \<Rightarrow>
                   (case JSON_stringify h jsonValue of
                      Inl e \<Rightarrow> Inl e
                    | Inr s \<Rightarrow>
                        Inr (constructPayload METADATA_ENCODING_PROTOBUF_JSON
                               (getNamespacedTypeName v) (u8 s))))),
       fromPayload = (\<lambda>arg.
         case validatePayload rt arg of
           Inl e \<Rightarrow> Inl e
         | Inr (messageType, d) \<Rightarrow>
             (case JSON_parse h (str (Some d)) of
                Inl e \<Rightarrow> Inl e
              | Inr j \<Rightarrow> fromProto3JSON h messageType j)),
       encodingType = METADATA_ENCODING_PROTOBUF_JSON \<rparr>"


text \<open>\<open>DefaultDataConverter\<close>: the chain in the order of its constructor.\<close>

definition default_chain :: "host \<Rightarrow> root option \<Rightarrow> dataConverterWithEncoding list" where
  "default_chain h rt =
     [UndefinedDataConverter, BinaryDataConverter, ProtobufJsonDataConverter h rt,
      ProtobufBinaryDataConverter h rt, JsonDataConverter h]"

definition DefaultDataConverter :: "host \<Rightarrow> root option \<Rightarrow> dataConverter" where
  "DefaultDataConverter h rt = CompositeDataConverter (default_chain h rt)"

section \<open>Fixtures and auxiliary predicates\<close>

text \<open>
  A small host used to run the model on concrete inputs: its \<open>JSON\<close> knows the literals
  \<open>null\<close>, \<open>true\<close> and \<open>false\<close>, it has no protobuf support, and its pattern test is a
  coarse stand-in for the two regular expressions.
\<close>

definition simple_host :: host where
  "simple_host =
     \<lparr> JSON_stringify = (\<lambda>v.
         case v of
           Null \<Rightarrow> Inr ''null''
         | Bool b \<Rightarrow> Inr (if b then ''true'' else ''false'')
         | _ \<Rightarrow> Inl (TypeError ''value outside the host fragment'')),
       JSON_parse = (\<lambda>s.
         if s = ''null'' then Inr Null
         else if s = ''true'' then Inr (Bool True)
         else if s = ''false'' then Inr (Bool False)
         else Inl (Error ''Unexpected token'')),
       proto_encode = (\<lambda>_. Inl (Error ''no protobuf support'')),
       proto_decode = (\<lambda>_ _. Inl (Error ''no protobuf support'')),
       toProto3JSON = (\<lambda>_. Inl (Error ''no protobuf support'')),
       fromProto3JSON = (\<lambda>_ _. Inl (Error ''no protobuf support'')),
       cutoff_pattern_test = (\<lambda>line.
         str_includes line '' at Activity.execute (''
         \<or> str_includes line ''NextHandler (webpack-internal:///''),
       js_String = (\<lambda>v.
         case v of
           Undefined \<Rightarrow> ''undefined''
         | Null \<Rightarrow> ''null''
         | Bool b \<Rightarrow> (if b then ''true'' else ''false'')
         | Str s \<Rightarrow> s
         | _ \<Rightarrow> ''[object Object]'') \<rparr>"

text \<open>The kinds of value \<open>JSON.stringify\<close> is meant for.\<close>

fun is_json_structure :: "jsval \<Rightarrow> bool" where
  "is_json_structure Null = True"
| "is_json_structure (Bool _) = True"
| "is_json_structure (Num _) = True"
| "is_json_structure (Str _) = True"
| "is_json_structure (Arr _) = True"
| "is_json_structure (Obj _) = True"
| "is_json_structure _ = False"


section \<open>The failure taxonomy and its wire mapping (failure.ts)\<close>

definition FAILURE_SOURCE :: string where
  "FAILURE_SOURCE = ''TypeScriptSDK''"

datatype TimeoutType =
    TIMEOUT_TYPE_UNSPECIFIED
  | TIMEOUT_TYPE_START_TO_CLOSE
  | TIMEOUT_TYPE_SCHEDULE_TO_START
  | TIMEOUT_TYPE_SCHEDULE_TO_CLOSE
  | TIMEOUT_TYPE_HEARTBEAT

datatype RetryState =
    RETRY_STATE_UNSPECIFIED
  | RETRY_STATE_IN_PROGRESS
  | RETRY_STATE_NON_RETRYABLE_FAILURE
  | RETRY_STATE_TIMEOUT
  | RETRY_STATE_MAXIMUM_ATTEMPTS_REACHED
  | RETRY_STATE_RETRY_POLICY_NOT_SET
  | RETRY_STATE_INTERNAL_SERVER_ERROR
  | RETRY_STATE_CANCEL_REQUESTED

text \<open>\<open>WorkflowExecution\<close>: workflow id and run id.\<close>

datatype WorkflowExecution = WorkflowExecution "string option" "string option"

subsection \<open>The \<open>Failure\<close> message\<close>

text \<open>
  The \<open>Failure\<close> message in its two forms: the wire form carries payload lists
  (\<open>ProtoFailure\<close>), the decoded form carries values (\<open>DeserializedFailure\<close>). \<open>'l\<close> is
  the type of the payload lists of the application, cancelled and reset infos, \<open>'h\<close>
  the type of the heartbeat payloads of the timeout info. A field \<open>details\<close> is a wrapper
  object \<open>{payloads}\<close>, hence the two options: \<open>None\<close> for no wrapper, \<open>Some None\<close> for a
  wrapper without \<open>payloads\<close>. \<open>activityType\<close> and \<open>workflowType\<close> are read only through
  \<open>?.name\<close> and are represented by that name.
\<close>

datatype 'l applicationFailureInfo =
  ApplicationFailureInfo "string option" "bool option" "'l option option"
  \<comment> \<open>\<open>type\<close>, \<open>nonRetryable\<close>, \<open>details\<close>\<close>

datatype 'h timeoutFailureInfo =
  TimeoutFailureInfo "TimeoutType option" "'h option option"
  \<comment> \<open>\<open>timeoutType\<close>, \<open>lastHeartbeatDetails\<close>\<close>

datatype 'l canceledFailureInfo =
  CanceledFailureInfo "'l option option"
  \<comment> \<open>\<open>details\<close>\<close>

datatype terminatedFailureInfo = TerminatedFailureInfo

datatype serverFailureInfo =
  ServerFailureInfo "bool option"
  \<comment> \<open>\<open>nonRetryable\<close>\<close>

datatype 'l resetWorkflowFailureInfo =
  ResetWorkflowFailureInfo "'l option option"
  \<comment> \<open>\<open>lastHeartbeatDetails\<close>\<close>

datatype activityFailureInfo =
  ActivityFailureInfo "string option" "string option" "RetryState option" "string option"
  \<comment> \<open>\<open>activityType?.name\<close>, \<open>activityId\<close>, \<open>retryState\<close>, \<open>identity\<close>\<close>

datatype childWorkflowExecutionFailureInfo =
  ChildWorkflowExecutionFailureInfo "string option" "WorkflowExecution option" "string option"
    "RetryState option"
  \<comment> \<open>\<open>namespace\<close>, \<open>workflowExecution\<close>, \<open>workflowType?.name\<close>, \<open>retryState\<close>\<close>

record ('l, 'h) failureInfo =
  applicationFailureInfo :: "'l applicationFailureInfo option"
  timeoutFailureInfo :: "'h timeoutFailureInfo option"
  canceledFailureInfo :: "'l canceledFailureInfo option"
  terminatedFailureInfo :: "terminatedFailureInfo option"
  serverFailureInfo :: "serverFailureInfo option"
  resetWorkflowFailureInfo :: "'l resetWorkflowFailureInfo option"
  activityFailureInfo :: "activityFailureInfo option"
  childWorkflowExecutionFailureInfo :: "childWorkflowExecutionFailureInfo option"

datatype ('l, 'h) failure =
  Failure (message: "string option") (stackTrace: "string option") (source: "string option")
    (cause: "('l, 'h) failure option") (info: "('l, 'h) failureInfo")

definition no_info :: "('l, 'h) failureInfo" where
  "no_info =
     \<lparr> applicationFailureInfo = None, timeoutFailureInfo = None, canceledFailureInfo = None,
       terminatedFailureInfo = None, serverFailureInfo = None, resetWorkflowFailureInfo = None,
       activityFailureInfo = None, childWorkflowExecutionFailureInfo = None \<rparr>"

text \<open>
  The heartbeat payloads of a timeout info in a message on its way out: a payload list,
  or the decoded value that \<open>serializeFailure\<close> leaves in place when the value has no
  (non-zero) \<open>length\<close>.
\<close>

datatype heartbeat = HbPayloads "payload list" | HbValue jsval

type_synonym ProtoFailure = "(payload list, heartbeat) failure"

type_synonym DeserializedFailure = "(jsval list, jsval) failure"

subsection \<open>The error classes\<close>

text \<open>
  \<open>TemporalFailure\<close> and its seven subclasses, with the fields their constructors
  store. The classes are never extended further, so an instance belongs to exactly one.
\<close>

datatype failureClass =
    TemporalFailure
  | ServerFailure bool
    \<comment> \<open>\<open>nonRetryable\<close>\<close>
  | ApplicationFailure "string option" bool "jsval list option"
    \<comment> \<open>\<open>type\<close>, \<open>nonRetryable\<close>, \<open>details\<close>\<close>
  | CancelledFailure "jsval list option"
    \<comment> \<open>\<open>details\<close>\<close>
  | TerminatedFailure
  | TimeoutFailure jsval TimeoutType
    \<comment> \<open>\<open>lastHeartbeatDetails\<close>, \<open>timeoutType\<close>\<close>
  | ActivityFailure string "string option" RetryState "string option"
    \<comment> \<open>\<open>activityType\<close>, \<open>activityId\<close>, \<open>retryState\<close>, \<open>identity\<close>\<close>
  | ChildWorkflowFailure "string option" WorkflowExecution string RetryState
    \<comment> \<open>\<open>namespace\<close>, \<open>execution\<close>, \<open>workflowType\<close>, \<open>retryState\<close>\<close>

text \<open>
  A thrown value: an instance of \<open>TemporalFailure\<close> (message, stack, cause, the original
  failure attached to it, class), another \<open>Error\<close> (message, stack), or a value that is
  no error at all. \<open>'s\<close> is the type of the attached original failure.
\<close>

datatype 's jserror =
    TemporalFailureInstance (err_message: string) (err_stack: "string option")
      (err_cause: "'s jserror option") (err_failure: "'s option") (err_class: failureClass)
  | ErrorInstance string "string option"
  | Thrown jsval

text \<open>The constructors: \<open>super(message ?? undefined)\<close> gives the empty message for none.\<close>

definition new_TemporalFailure ::
  "string option \<Rightarrow> 's jserror option \<Rightarrow> failureClass \<Rightarrow> 's jserror" where
  "new_TemporalFailure msg cs cl =
     TemporalFailureInstance (case msg of None \<Rightarrow> [] | Some m \<Rightarrow> m) None cs None cl"

fun truthy :: "jsval \<Rightarrow> bool" where
  "truthy Undefined = False"
| "truthy Null = False"
| "truthy (Bool b) = b"
| "truthy (Num n) = (n \<noteq> 0)"
| "truthy (Str s) = (s \<noteq> [])"
| "truthy _ = True"

fun truthy_error :: "'s jserror \<Rightarrow> bool" where
  "truthy_error (Thrown v) = truthy v"
| "truthy_error _ = True"

subsection \<open>\<open>cutoffStackTrace\<close>\<close>

text \<open>\<open>split(/\r?\n/)\<close>: the first argument is the current line, reversed.\<close>

fun split_lines :: "string \<Rightarrow> string \<Rightarrow> string list" where
  "split_lines acc [] = [rev acc]"
| "split_lines acc (c # cs) =
     (if c = CHR 0x0A
      then rev (case acc of [] \<Rightarrow> [] | d # ds \<Rightarrow> if d = CHR 0x0D then ds else acc)
           # split_lines [] cs
      else split_lines (c # acc) cs)"

fun join_lines :: "string list \<Rightarrow> string" where
  "join_lines [] = []"
| "join_lines [l] = l"
| "join_lines (l # ls) = l @ [CHR 0x0A] @ join_lines ls"

definition cutoffStackTrace :: "host \<Rightarrow> string option \<Rightarrow> string" where
  "cutoffStackTrace h stack =
     join_lines (takeWhile (\<lambda>line. \<not> cutoff_pattern_test h line)
       (split_lines [] (case stack of None \<Rightarrow> [] | Some s \<Rightarrow> s)))"

subsection \<open>\<open>serializeFailure\<close> and \<open>deserializeFailure\<close>\<close>

text \<open>
  \<open>serializeFailure\<close> reads the decoded heartbeat value as an array:
  \<open>payloads?.length\<close> must be truthy, then the value is spread into \<open>toPayloads\<close>. A
  string spreads into its characters, a buffer into its bytes; an object with a truthy
  \<open>length\<close> property is not iterable. \<open>None\<close>: the value is left in place.
\<close>

fun spread_by_length :: "jsval \<Rightarrow> (error + jsval list) option" where
  "spread_by_length (Arr xs) = (if xs = [] then None else Some (Inr xs))"
| "spread_by_length (Str s) = (if s = [] then None else Some (Inr (map (\<lambda>c. Str [c]) s)))"
| "spread_by_length (Uint8Array b) =
     (if b = [] then None else Some (Inr (map (\<lambda>c. Num (of_char c)) b)))"
| "spread_by_length (Obj fs) =
     (case map_of fs ''length'' of
        None \<Rightarrow> None
      | Some l \<Rightarrow> if truthy l then Some (Inl (TypeError ''object is not iterable'')) else None)"
| "spread_by_length (Message n fs) =
     (case map_of fs ''length'' of
        None \<Rightarrow> None
      | Some l \<Rightarrow> if truthy l then Some (Inl (TypeError ''object is not iterable'')) else None)"
| "spread_by_length _ = None"

text \<open>
  The \<open>if (x?.details?.payloads?.length)\<close> blocks of \<open>serializeFailure\<close>, for a decoded
  list and for the decoded heartbeat value.
\<close>

definition serialize_list ::
  "'a dataConverter_scheme \<Rightarrow> jsval list option option \<Rightarrow> error + payload list option option"
  where
  "serialize_list dc details =
     (case details of
        Some (Some vs) \<Rightarrow>
          if length vs \<noteq> 0
          then (case toPayloads dc vs of Inl e \<Rightarrow> Inl e | Inr ps \<Rightarrow> Inr (Some ps))
          else Inr (Some (Some []))
      | Some None \<Rightarrow> Inr (Some None)
      | None \<Rightarrow> Inr None)"

definition serialize_heartbeat ::
  "'a dataConverter_scheme \<Rightarrow> jsval option option \<Rightarrow> error + heartbeat option option" where
  "serialize_heartbeat dc details =
     (case details of
        Some (Some v) \<Rightarrow>
          (case spread_by_length v of
             None \<Rightarrow> Inr (Some (Some (HbValue v)))
           | Some (Inl e) \<Rightarrow> Inl e
           | Some (Inr vs) \<Rightarrow>
               (case toPayloads dc vs of
                  Inl e \<Rightarrow> Inl e
                | Inr ps \<Rightarrow> Inr (Some (map_option HbPayloads ps))))
      | Some None \<Rightarrow> Inr (Some None)
      | None \<Rightarrow> Inr None)"

fun serializeFailure :: "'a dataConverter_scheme \<Rightarrow> DeserializedFailure \<Rightarrow> error + ProtoFailure"
  and serializeFailure_cause ::
    "'a dataConverter_scheme \<Rightarrow> DeserializedFailure option \<Rightarrow> error + ProtoFailure option"
  where
  "serializeFailure dc (Failure m st so c i) =
     (case serializeFailure_cause dc c of
        Inl e \<Rightarrow> Inl e
      | Inr c' \<Rightarrow>
     (case (case applicationFailureInfo i of
              None \<Rightarrow> Inr None
            | Some (ApplicationFailureInfo t n d) \<Rightarrow>
                (case serialize_list dc d of
                   Inl e \<Rightarrow> Inl e
                 | Inr d' \<Rightarrow> Inr (Some (ApplicationFailureInfo t n d')))) of
        Inl e \<Rightarrow> Inl e
      | Inr app \<Rightarrow>
     (case (case timeoutFailureInfo i of
              None \<Rightarrow> Inr None
            | Some (TimeoutFailureInfo t d) \<Rightarrow>
                (case serialize_heartbeat dc d of
                   Inl e \<Rightarrow> Inl e
                 | Inr d' \<Rightarrow> Inr (Some (TimeoutFailureInfo t d')))) of
        Inl e \<Rightarrow> Inl e
      | Inr tmo \<Rightarrow>
     (case (case canceledFailureInfo i of
              None \<Rightarrow> Inr None
            | Some (CanceledFailureInfo d) \<Rightarrow>
                (case serialize_list dc d of
                   Inl e \<Rightarrow> Inl e
                 | Inr d' \<Rightarrow> Inr (Some (CanceledFailureInfo d')))) of
        Inl e \<Rightarrow> Inl e
      | Inr can \<Rightarrow>
     (case (case resetWorkflowFailureInfo i of
              None \<Rightarrow> Inr None
            | Some (ResetWorkflowFailureInfo d) \<Rightarrow>
                (case serialize_list dc d of
                   Inl e \<Rightarrow> Inl e
                 | Inr d' \<Rightarrow> Inr (Some (ResetWorkflowFailureInfo d')))) of
        Inl e \<Rightarrow> Inl e
      | Inr rst \<Rightarrow>
          Inr (Failure m st so c'
                 \<lparr> applicationFailureInfo = app, timeoutFailureInfo = tmo,
                   canceledFailureInfo = can,
                   terminatedFailureInfo = terminatedFailureInfo i,
                   serverFailureInfo = serverFailureInfo i,
                   resetWorkflowFailureInfo = rst,
                   activityFailureInfo = activityFailureInfo i,
                   childWorkflowExecutionFailureInfo = childWorkflowExecutionFailureInfo i \<rparr>))))))"
| "serializeFailure_cause dc None = Inr None"
| "serializeFailure_cause dc (Some f) =
     (case serializeFailure dc f of Inl e \<Rightarrow> Inl e | Inr f' \<Rightarrow> Inr (Some f'))"

text \<open>
  \<open>fromPayloads(0, payloads)\<close> on the heartbeat payloads of a wire message. For a payload
  list this is \<open>fromPayloads\<close>. A decoded value left in place is compared by its
  \<open>length\<close>, and the element read from it is not a payload: \<open>fromPayload\<close> is then
  applied to \<open>undefined\<close> (exact unless the value has a property \<open>0\<close>).
\<close>

fun index_past_length :: "int \<Rightarrow> jsval \<Rightarrow> bool" where
  "index_past_length i (Arr xs) = (i \<ge> int (length xs))"
| "index_past_length i (Str s) = (i \<ge> int (length s))"
| "index_past_length i (Uint8Array b) = (i \<ge> int (length b))"
| "index_past_length i (Obj fs) =
     (case map_of fs ''length'' of Some (Num n) \<Rightarrow> i \<ge> n | _ \<Rightarrow> False)"
| "index_past_length i (Message n fs) =
     (case map_of fs ''length'' of Some (Num n) \<Rightarrow> i \<ge> n | _ \<Rightarrow> False)"
| "index_past_length i _ = False"

definition fromPayloads_heartbeat :: "'a dataConverter_scheme \<Rightarrow> heartbeat option \<Rightarrow> error + jsval"
  where
  "fromPayloads_heartbeat dc payloads =
     (case payloads of
        None \<Rightarrow> Inr Undefined
      | Some (HbPayloads ps) \<Rightarrow> fromPayloads dc 0 (Some ps)
      | Some (HbValue v) \<Rightarrow>
          if v = Undefined \<or> v = Null \<or> index_past_length 0 v then Inr Undefined
          else fromPayload dc None)"

text \<open>The four \<open>if\<close> blocks of \<open>deserializeFailure\<close>.\<close>

definition deserialize_details ::
  "'a dataConverter_scheme \<Rightarrow> payload list option option \<Rightarrow> error + jsval list option option"
  where
  "deserialize_details dc details =
     (case details of
        None \<Rightarrow> Inr None
      | Some payloads \<Rightarrow>
          (case arrayFromPayloads dc payloads of
             Inl e \<Rightarrow> Inl e
           | Inr vs \<Rightarrow> Inr (Some (Some vs))))"

definition deserialize_payloads ::
  "'a dataConverter_scheme \<Rightarrow> payload list option option \<Rightarrow> error + jsval list option option"
  where
  "deserialize_payloads dc details =
     (case details of
        Some (Some ps) \<Rightarrow>
          (case arrayFromPayloads dc (Some ps) of
             Inl e \<Rightarrow> Inl e
           | Inr vs \<Rightarrow> Inr (Some (Some vs)))
      | Some None \<Rightarrow> Inr (Some None)
      | None \<Rightarrow> Inr None)"

definition deserialize_heartbeat ::
  "'a dataConverter_scheme \<Rightarrow> heartbeat option option \<Rightarrow> error + jsval option option" where
  "deserialize_heartbeat dc details =
     (case details of
        Some (Some (HbPayloads ps)) \<Rightarrow>
          (case fromPayloads_heartbeat dc (Some (HbPayloads ps)) of
             Inl e \<Rightarrow> Inl e
           | Inr v \<Rightarrow> Inr (Some (Some v)))
      | Some (Some (HbValue w)) \<Rightarrow>
          if truthy w
          then (case fromPayloads_heartbeat dc (Some (HbValue w)) of
                  Inl e \<Rightarrow> Inl e
                | Inr v \<Rightarrow> Inr (Some (Some v)))
          else Inr (Some (Some w))
      | Some None \<Rightarrow> Inr (Some None)
      | None \<Rightarrow> Inr None)"

fun deserializeFailure :: "'a dataConverter_scheme \<Rightarrow> ProtoFailure \<Rightarrow> error + DeserializedFailure"
  and deserializeFailure_cause ::
    "'a dataConverter_scheme \<Rightarrow> ProtoFailure option \<Rightarrow> error + DeserializedFailure option"
  where
  "deserializeFailure dc (Failure m st so c i) =
     (case deserializeFailure_cause dc c of
        Inl e \<Rightarrow> Inl e
      | Inr c' \<Rightarrow>
     (case (case applicationFailureInfo i of
              None \<Rightarrow> Inr None
            | Some (ApplicationFailureInfo t n d) \<Rightarrow>
                (case deserialize_details dc d of
                   Inl e \<Rightarrow> Inl e
                 | Inr d' \<Rightarrow> Inr (Some (ApplicationFailureInfo t n d')))) of
        Inl e \<Rightarrow> Inl e
      | Inr app \<Rightarrow>
     (case (case timeoutFailureInfo i of
              None \<Rightarrow> Inr None
            | Some (TimeoutFailureInfo t d) \<Rightarrow>
                (case deserialize_heartbeat dc d of
                   Inl e \<Rightarrow> Inl e
                 | Inr d' \<Rightarrow> Inr (Some (TimeoutFailureInfo t d')))) of
        Inl e \<Rightarrow> Inl e
      | Inr tmo \<Rightarrow>
     (case (case canceledFailureInfo i of
              None \<Rightarrow> Inr None
            | Some (CanceledFailureInfo d) \<Rightarrow>
                (case deserialize_payloads dc d of
                   Inl e \<Rightarrow> Inl e
                 | Inr d' \<Rightarrow> Inr (Some (CanceledFailureInfo d')))) of
        Inl e \<Rightarrow> Inl e
      | Inr can \<Rightarrow>
     (case (case resetWorkflowFailureInfo i of
              None \<Rightarrow> Inr None
            | Some (ResetWorkflowFailureInfo d) \<Rightarrow>
                (case deserialize_payloads dc d of
                   Inl e \<Rightarrow> Inl e
                 | Inr d' \<Rightarrow> Inr (Some (ResetWorkflowFailureInfo d')))) of
        Inl e \<Rightarrow> Inl e
      | Inr rst \<Rightarrow>
          Inr (Failure m st so c'
                 \<lparr> applicationFailureInfo = app, timeoutFailureInfo = tmo,
                   canceledFailureInfo = can,
                   terminatedFailureInfo = terminatedFailureInfo i,
                   serverFailureInfo = serverFailureInfo i,
                   resetWorkflowFailureInfo = rst,
                   activityFailureInfo = activityFailureInfo i,
                   childWorkflowExecutionFailureInfo = childWorkflowExecutionFailureInfo i \<rparr>))))))"
| "deserializeFailure_cause dc None = Inr None"
| "deserializeFailure_cause dc (Some f) =
     (case deserializeFailure dc f of Inl e \<Rightarrow> Inl e | Inr f' \<Rightarrow> Inr (Some f'))"

subsection \<open>\<open>errorToFailure\<close>\<close>

text \<open>
  The \<open>details?.length ? {payloads: await toPayloads(...details)} : undefined\<close> of the
  application and cancelled branches, and the heartbeat of the timeout branch.
\<close>

definition details_toPayloads ::
  "'a dataConverter_scheme \<Rightarrow> jsval list option \<Rightarrow> error + payload list option option" where
  "details_toPayloads dc details =
     (case details of
        None \<Rightarrow> Inr None
      | Some vs \<Rightarrow>
          if length vs \<noteq> 0
          then (case toPayloads dc vs of Inl e \<Rightarrow> Inl e | Inr ps \<Rightarrow> Inr (Some ps))
          else Inr None)"

definition heartbeat_toPayloads ::
  "'a dataConverter_scheme \<Rightarrow> jsval \<Rightarrow> error + heartbeat option option" where
  "heartbeat_toPayloads dc lastHeartbeatDetails =
     (if truthy lastHeartbeatDetails
      then (case toPayloads dc [lastHeartbeatDetails] of
              Inl e \<Rightarrow> Inl e
            | Inr ps \<Rightarrow> Inr (Some (map_option HbPayloads ps)))
      else Inr None)"

text \<open>
  \<open>workflowInclusiveInstanceOf\<close> starts with \<open>Object.getPrototypeOf(instance)\<close>, which
  throws for \<open>undefined\<close> and \<open>null\<close>. The class tests are made in the order activity,
  child workflow, application, cancelled, timeout, terminated, server; since an instance
  has one class their order does not matter. The spread of the error into
  \<open>activityFailureInfo\<close> and \<open>childWorkflowExecutionFailureInfo\<close> also copies properties
  that are not fields of the message; they are left out.
\<close>

fun errorToFailure ::
    "host \<Rightarrow> 'a dataConverter_scheme \<Rightarrow> DeserializedFailure jserror \<Rightarrow> error + ProtoFailure"
  and optionalErrorToOptionalFailure ::
    "host \<Rightarrow> 'a dataConverter_scheme \<Rightarrow> DeserializedFailure jserror option
       \<Rightarrow> error + ProtoFailure option"
  where
  "errorToFailure h dc (TemporalFailureInstance msg stack cs fl cl) =
     (case fl of
        Some f \<Rightarrow> serializeFailure dc f
      | None \<Rightarrow>
          (case optionalErrorToOptionalFailure h dc cs of
             Inl e \<Rightarrow> Inl e
           | Inr c' \<Rightarrow>
               (let base = Failure (Some msg) (Some (cutoffStackTrace h stack))
                             (Some FAILURE_SOURCE) c' in
                case cl of
                  ActivityFailure activityType activityId retryState identity \<Rightarrow>
                    Inr (base (no_info \<lparr> activityFailureInfo :=
                      Some (ActivityFailureInfo (Some activityType) activityId (Some retryState)
                              identity) \<rparr>))
                | ChildWorkflowFailure namespace execution workflowType retryState \<Rightarrow>
                    Inr (base (no_info \<lparr> childWorkflowExecutionFailureInfo :=
                      Some (ChildWorkflowExecutionFailureInfo namespace (Some execution)
                              (Some workflowType) (Some retryState)) \<rparr>))
                | ApplicationFailure type nonRetryable details \<Rightarrow>
                    (case details_toPayloads dc details of
                       Inl e \<Rightarrow> Inl e
                     | Inr d \<Rightarrow>
                         Inr (base (no_info \<lparr> applicationFailureInfo :=
                           Some (ApplicationFailureInfo type (Some nonRetryable) d) \<rparr>)))
                | CancelledFailure details \<Rightarrow>
                    (case details_toPayloads dc details of
                       Inl e \<Rightarrow> Inl e
                     | Inr d \<Rightarrow>
                         Inr (base (no_info \<lparr> canceledFailureInfo :=
                           Some (CanceledFailureInfo d) \<rparr>)))
                | TimeoutFailure lastHeartbeatDetails timeoutType \<Rightarrow>
                    (case heartbeat_toPayloads dc lastHeartbeatDetails of
                       Inl e \<Rightarrow> Inl e
                     | Inr d \<Rightarrow>
                         Inr (base (no_info \<lparr> timeoutFailureInfo :=
                           Some (TimeoutFailureInfo (Some timeoutType) d) \<rparr>)))
                | TerminatedFailure \<Rightarrow>
                    Inr (base (no_info \<lparr> terminatedFailureInfo := Some TerminatedFailureInfo \<rparr>))
                | ServerFailure nonRetryable \<Rightarrow>
                    Inr (base (no_info \<lparr> serverFailureInfo :=
                      Some (ServerFailureInfo (Some nonRetryable)) \<rparr>))
                | TemporalFailure \<Rightarrow> Inr (base no_info))))"
| "errorToFailure h dc (ErrorInstance msg stack) =
     Inr (Failure (Some msg) (Some (cutoffStackTrace h stack)) (Some FAILURE_SOURCE) None no_info)"
| "errorToFailure h dc (Thrown v) =
     (if v = Undefined \<or> v = Null
      then Inl (TypeError ''Cannot convert undefined or null to object'')
      else (case v of
              Str s \<Rightarrow> Inr (Failure (Some s) None (Some FAILURE_SOURCE) None no_info)
            | _ \<Rightarrow> Inr (Failure (Some (js_String h v)) None (Some FAILURE_SOURCE) None no_info)))"
| "optionalErrorToOptionalFailure h dc None = Inr None"
| "optionalErrorToOptionalFailure h dc (Some err) =
     (if truthy_error err
      then (case errorToFailure h dc err of Inl e \<Rightarrow> Inl e | Inr f \<Rightarrow> Inr (Some f))
      else Inr None)"

subsection \<open>\<open>failureToError\<close> as adapted for the upstream protos\<close>

text \<open>
  The second copy of \<open>failureToError\<close> in the sources ("same as common/failure but
  adapted for upstream protos") decodes the payloads itself. It attaches
  \<open>serviceToCoreFailure(failure)\<close> to the error it builds. The coresdk shape of a
  failure differs from the service shape in the wrapper objects only (\<open>details\<close> is the
  payload list itself, \<open>activityType\<close> the name itself); both are values of \<open>ProtoFailure\<close>
  here, and a wrapper without \<open>payloads\<close> becomes no \<open>details\<close>.
\<close>

definition unwrap :: "'a option option \<Rightarrow> 'a option option" where
  "unwrap d = (case d of Some (Some x) \<Rightarrow> Some (Some x) | _ \<Rightarrow> None)"

fun serviceToCoreFailure :: "ProtoFailure option \<Rightarrow> ProtoFailure option" where
  "serviceToCoreFailure None = None"
| "serviceToCoreFailure (Some (Failure m st so c i)) =
     (let base = Failure m st so (serviceToCoreFailure c) in
      case serverFailureInfo i of
        Some srv \<Rightarrow> Some (base (no_info \<lparr> serverFailureInfo := Some srv \<rparr>))
      | None \<Rightarrow>
     (case timeoutFailureInfo i of
        Some (TimeoutFailureInfo timeoutType lastHeartbeatDetails) \<Rightarrow>
          Some (base (no_info \<lparr> timeoutFailureInfo :=
            Some (TimeoutFailureInfo timeoutType (unwrap lastHeartbeatDetails)) \<rparr>))
      | None \<Rightarrow>
     (case canceledFailureInfo i of
        Some (CanceledFailureInfo details) \<Rightarrow>
          Some (base (no_info \<lparr> canceledFailureInfo :=
            Some (CanceledFailureInfo (unwrap details)) \<rparr>))
      | None \<Rightarrow>
     (case activityFailureInfo i of
        Some act \<Rightarrow> Some (base (no_info \<lparr> activityFailureInfo := Some act \<rparr>))
      | None \<Rightarrow>
     (case terminatedFailureInfo i of
        Some ter \<Rightarrow> Some (base (no_info \<lparr> terminatedFailureInfo := Some ter \<rparr>))
      | None \<Rightarrow>
     (case applicationFailureInfo i of
        Some (ApplicationFailureInfo type nonRetryable details) \<Rightarrow>
          Some (base (no_info \<lparr> applicationFailureInfo :=
            Some (ApplicationFailureInfo type nonRetryable (unwrap details)) \<rparr>))
      | None \<Rightarrow>
     (case resetWorkflowFailureInfo i of
        Some (ResetWorkflowFailureInfo lastHeartbeatDetails) \<Rightarrow>
          Some (base (no_info \<lparr> resetWorkflowFailureInfo :=
            Some (ResetWorkflowFailureInfo (unwrap lastHeartbeatDetails)) \<rparr>))
      | None \<Rightarrow>
     (case childWorkflowExecutionFailureInfo i of
        Some chw \<Rightarrow> Some (base (no_info \<lparr> childWorkflowExecutionFailureInfo := Some chw \<rparr>))
      | None \<Rightarrow> Some (base no_info)))))))))"

text \<open>\<open>err.stack = ...; err.failure = ...\<close> on the error just built.\<close>

fun set_stack_and_failure :: "'s jserror \<Rightarrow> string \<Rightarrow> 's option \<Rightarrow> 's jserror" where
  "set_stack_and_failure (TemporalFailureInstance msg stack cs fl cl) stack' fl' =
     TemporalFailureInstance msg (Some stack') cs fl' cl"
| "set_stack_and_failure err stack' fl' = err"

definition Boolean :: "bool option \<Rightarrow> bool" where
  "Boolean b = (case b of None \<Rightarrow> False | Some x \<Rightarrow> x)"

text \<open>
  The arguments of each constructor call are evaluated from left to right: the details
  are decoded before the cause is converted. The last branch calls
  \<open>new TemporalFailure(message, undefined, cause)\<close>; the constructor of \<open>TemporalFailure\<close> is
  \<open>(message, cause)\<close>, so the converted cause is dropped. There is no branch for
  \<open>childWorkflowExecutionFailureInfo\<close>.
\<close>

fun failureToError ::
    "'a dataConverter_scheme \<Rightarrow> ProtoFailure \<Rightarrow> error + ProtoFailure jserror"
  and failureToErrorInner ::
    "'a dataConverter_scheme \<Rightarrow> ProtoFailure \<Rightarrow> error + ProtoFailure jserror"
  and optionalFailureToOptionalError ::
    "'a dataConverter_scheme \<Rightarrow> ProtoFailure option \<Rightarrow> error + ProtoFailure jserror option"
  where
  "failureToError dc (Failure m st so c i) =
     (case failureToErrorInner dc (Failure m st so c i) of
        Inl e \<Rightarrow> Inl e
      | Inr err \<Rightarrow>
          Inr (set_stack_and_failure err (case st of None \<Rightarrow> [] | Some s \<Rightarrow> s)
                 (serviceToCoreFailure (Some (Failure m st so c i)))))"
| "failureToErrorInner dc (Failure m st so c i) =
     (case applicationFailureInfo i of
        Some (ApplicationFailureInfo type nonRetryable details) \<Rightarrow>
          (case arrayFromPayloads dc (case details of None \<Rightarrow> None | Some p \<Rightarrow> p) of
             Inl e \<Rightarrow> Inl e
           | Inr vs \<Rightarrow>
               (case optionalFailureToOptionalError dc c of
                  Inl e \<Rightarrow> Inl e
                | Inr c' \<Rightarrow>
                    Inr (new_TemporalFailure m c'
                           (ApplicationFailure type (Boolean nonRetryable) (Some vs)))))
      | None \<Rightarrow>
     (case serverFailureInfo i of
        Some (ServerFailureInfo nonRetryable) \<Rightarrow>
          (case optionalFailureToOptionalError dc c of
             Inl e \<Rightarrow> Inl e
           | Inr c' \<Rightarrow> Inr (new_TemporalFailure m c' (ServerFailure (Boolean nonRetryable))))
      | None \<Rightarrow>
     (case timeoutFailureInfo i of
        Some (TimeoutFailureInfo timeoutType lastHeartbeatDetails) \<Rightarrow>
          (case fromPayloads_heartbeat dc
                  (case lastHeartbeatDetails of None \<Rightarrow> None | Some p \<Rightarrow> p) of
             Inl e \<Rightarrow> Inl e
           | Inr v \<Rightarrow>
               Inr (new_TemporalFailure m None
                      (TimeoutFailure v
                         (case timeoutType of
                            None \<Rightarrow> TIMEOUT_TYPE_UNSPECIFIED
                          | Some t \<Rightarrow> t))))
      | None \<Rightarrow>
     (case terminatedFailureInfo i of
        Some ter \<Rightarrow>
          (case optionalFailureToOptionalError dc c of
             Inl e \<Rightarrow> Inl e
           | Inr c' \<Rightarrow> Inr (new_TemporalFailure m c' TerminatedFailure))
      | None \<Rightarrow>
     (case canceledFailureInfo i of
        Some (CanceledFailureInfo details) \<Rightarrow>
          (case arrayFromPayloads dc (case details of None \<Rightarrow> None | Some p \<Rightarrow> p) of
             Inl e \<Rightarrow> Inl e
           | Inr vs \<Rightarrow>
               (case optionalFailureToOptionalError dc c of
                  Inl e \<Rightarrow> Inl e
                | Inr c' \<Rightarrow> Inr (new_TemporalFailure m c' (CancelledFailure (Some vs)))))
      | None \<Rightarrow>
     (case resetWorkflowFailureInfo i of
        Some (ResetWorkflowFailureInfo lastHeartbeatDetails) \<Rightarrow>
          (case arrayFromPayloads dc
                  (case lastHeartbeatDetails of None \<Rightarrow> None | Some p \<Rightarrow> p) of
             Inl e \<Rightarrow> Inl e
           | Inr vs \<Rightarrow>
               (case optionalFailureToOptionalError dc c of
                  Inl e \<Rightarrow> Inl e
                | Inr c' \<Rightarrow>
                    Inr (new_TemporalFailure m c'
                           (ApplicationFailure (Some ''ResetWorkflow'') False (Some vs)))))
      | None \<Rightarrow>
     (case activityFailureInfo i of
        Some (ActivityFailureInfo activityType activityId retryState identity) \<Rightarrow>
          (case activityType of
             None \<Rightarrow> Inl (TypeError ''Missing activityType on activityFailureInfo'')
           | Some name \<Rightarrow>
               if name = [] then Inl (TypeError ''Missing activityType on activityFailureInfo'')
               else
                 (case optionalFailureToOptionalError dc c of
                    Inl e \<Rightarrow> Inl e
                  | Inr c' \<Rightarrow>
                      Inr (new_TemporalFailure (Some ''Activity execution failed'') c'
                             (ActivityFailure name activityId
                                (case retryState of
                                   None \<Rightarrow> RETRY_STATE_UNSPECIFIED
                                 | Some r \<Rightarrow> r)
                                identity))))
      | None \<Rightarrow>
          (case optionalFailureToOptionalError dc c of
             Inl e \<Rightarrow> Inl e
           | Inr c' \<Rightarrow> Inr (new_TemporalFailure m None TemporalFailure)))))))))"
| "optionalFailureToOptionalError dc None = Inr None"
| "optionalFailureToOptionalError dc (Some f) =
     (case failureToError dc f of Inl e \<Rightarrow> Inl e | Inr err \<Rightarrow> Inr (Some err))"

text \<open>
  How many errors the cause chain of an error holds, the error itself not counted.
\<close>

fun cause_depth :: "'s jserror \<Rightarrow> nat" and cause_depth_opt :: "'s jserror option \<Rightarrow> nat" where
  "cause_depth (TemporalFailureInstance msg stack cs fl cl) = cause_depth_opt cs"
| "cause_depth (ErrorInstance msg stack) = 0"
| "cause_depth (Thrown v) = 0"
| "cause_depth_opt None = 0"
| "cause_depth_opt (Some err) = Suc (cause_depth err)"

text \<open>
  A child-workflow failure as the runtime builds it, caused by an application failure.
\<close>

definition child_failure_example :: "DeserializedFailure jserror" where
  "child_failure_example =
     TemporalFailureInstance ''Child Workflow execution failed'' None
       (Some (TemporalFailureInstance ''boom'' None None None
                (ApplicationFailure (Some ''Error'') False None)))
       None
       (ChildWorkflowFailure (Some ''default'')
          (WorkflowExecution (Some ''child-id'') (Some ''run-id'')) ''childWorkflow''
          RETRY_STATE_NON_RETRYABLE_FAILURE)"

section \<open>Activations and completions (worker/src/workflow/serializer.ts)\<close>

text \<open>
  An activation job and a completion command, in wire form and in decoded form: \<open>'p\<close>
  is the type of a payload-bearing field (\<open>payload\<close> on the wire, \<open>jsval\<close> decoded) and
  \<open>'f\<close> the type of a failure-bearing field. Every member is optional. Only the members
  the serializer and the scheduler read are kept; \<open>fireTimer\<close> and \<open>startTimer\<close> stand for
  the jobs and commands that carry neither payloads nor failures.
\<close>

datatype 'p startWorkflow =
  StartWorkflow "'p list option" "(string \<times> 'p) list option"
  \<comment> \<open>\<open>arguments\<close>, \<open>headers\<close>\<close>

datatype ('p, 'f) resolution =
  Resolution "'p option option" "'f option option" "'f option option"
  \<comment> \<open>\<open>result?.completed\<close> (with its \<open>result\<close>), \<open>result?.failed\<close> and \<open>result?.cancelled\<close>
      (with their \<open>failure\<close>)\<close>

record ('p, 'f) job =
  startWorkflow :: "'p startWorkflow option"
  fireTimer :: "string option"
  queryWorkflow :: "'p list option option"
  cancelWorkflow :: "'p list option option"
  signalWorkflow :: "'p list option option"
  resolveActivity :: "('p, 'f) resolution option option"
  notifyHasPatch :: "string option"
  resolveChildWorkflowExecutionStart :: "'f option option option"
  resolveChildWorkflowExecution :: "('p, 'f) resolution option option"
  resolveSignalExternalWorkflow :: "'f option option"
  resolveRequestCancelExternalWorkflow :: "'f option option"

text \<open>
  \<open>queryWorkflow\<close>, \<open>cancelWorkflow\<close> and \<open>signalWorkflow\<close> hold their payload list
  (\<open>arguments\<close>, \<open>details\<close>, \<open>input\<close>); \<open>resolveActivity\<close> and
  \<open>resolveChildWorkflowExecution\<close> hold their \<open>result\<close>;
  \<open>resolveChildWorkflowExecutionStart\<close> holds \<open>cancelled\<close> with its \<open>failure\<close>; the last two
  hold their \<open>failure\<close>.
\<close>

record ('p, 'f) activation =
  runId :: "string option"
  isReplaying :: "bool option"
  jobs :: "('p, 'f) job list option"

datatype 'p scheduleActivity =
  ScheduleActivity "(string \<times> 'p) list option" "'p list option"
  \<comment> \<open>\<open>headerFields\<close>, \<open>arguments\<close>\<close>

datatype ('p, 'f) respondToQuery =
  RespondToQuery "'p option option" "'f option"
  \<comment> \<open>\<open>succeeded\<close> (with its \<open>response\<close>, if it has the property), \<open>failed\<close>\<close>

datatype 'p completeWorkflowExecution =
  CompleteWorkflowExecution "'p option"
  \<comment> \<open>\<open>result\<close>, if the object has the property\<close>

datatype 'f failWorkflowExecution =
  FailWorkflowExecution "'f option"
  \<comment> \<open>\<open>failure\<close>\<close>

datatype 'p continueAsNewWorkflowExecution =
  ContinueAsNewWorkflowExecution "'p list option" "(string \<times> 'p) list option"
    "(string \<times> 'p) list option" "(string \<times> 'p) list option"
  \<comment> \<open>\<open>arguments\<close>, \<open>memo\<close>, \<open>header\<close>, \<open>searchAttributes\<close>\<close>

datatype 'p startChildWorkflowExecution =
  StartChildWorkflowExecution "'p list option" "(string \<times> 'p) list option"
    "(string \<times> 'p) list option" "(string \<times> 'p) list option"
  \<comment> \<open>\<open>input\<close>, \<open>memo\<close>, \<open>header\<close>, \<open>searchAttributes\<close>\<close>

datatype 'p signalExternalWorkflowExecution =
  SignalExternalWorkflowExecution "'p list option"
  \<comment> \<open>\<open>args\<close>\<close>

record ('p, 'f) command =
  scheduleActivity :: "'p scheduleActivity option"
  respondToQuery :: "('p, 'f) respondToQuery option"
  completeWorkflowExecution :: "'p completeWorkflowExecution option"
  failWorkflowExecution :: "'f failWorkflowExecution option"
  continueAsNewWorkflowExecution :: "'p continueAsNewWorkflowExecution option"
  startChildWorkflowExecution :: "'p startChildWorkflowExecution option"
  signalExternalWorkflowExecution :: "'p signalExternalWorkflowExecution option"
  startTimer :: "string option"

text \<open>
  A completion: \<open>commands\<close> is \<open>successful?.commands\<close>, a list whose entries may be
  \<open>null\<close>; \<open>failed\<close> is the member of that name.
\<close>

record ('p, 'f) completion =
  completion_runId :: "string option"
  commands :: "('p, 'f) command option list option"
  failed :: "'f option"

text \<open>
  A failure-bearing field after \<open>serializeCompletion\<close>: the failure message, or the
  falsy value that the truthiness test of the serializer left in place.
\<close>

datatype failure_field = EncodedFailure ProtoFailure | LeftInPlace jsval

definition bindE :: "error + 'a \<Rightarrow> ('a \<Rightarrow> error + 'b) \<Rightarrow> error + 'b" where
  "bindE m f = (case m of Inl e \<Rightarrow> Inl e | Inr x \<Rightarrow> f x)"

subsection \<open>\<open>deserializeActivation\<close>\<close>

text \<open>
  \<open>Promise.all\<close> over the field decoders: the model runs them in the order of the list
  and stops at the first that throws. (When several fields fail, which of their errors
  \<open>Promise.all\<close> rejects with depends on the order of the microtasks.) The helpers take
  the value of \<open>obj[field]\<close>; \<open>None\<close> is the early \<open>return\<close>.
\<close>

definition deserializeField :: "'a dataConverter_scheme \<Rightarrow> payload option \<Rightarrow> error + jsval option"
  where
  "deserializeField dc field =
     (case field of
        None \<Rightarrow> Inr None
      | Some p \<Rightarrow> bindE (fromPayload dc (Some p)) (\<lambda>v. Inr (Some v)))"

definition deserializeArray ::
  "'a dataConverter_scheme \<Rightarrow> payload list option \<Rightarrow> error + jsval list option" where
  "deserializeArray dc field =
     (case field of
        None \<Rightarrow> Inr None
      | Some ps \<Rightarrow> bindE (mapE (\<lambda>p. fromPayload dc (Some p)) ps) (\<lambda>vs. Inr (Some vs)))"

definition deserializeMap ::
  "'a dataConverter_scheme \<Rightarrow> (string \<times> payload) list option
     \<Rightarrow> error + (string \<times> jsval) list option" where
  "deserializeMap dc field =
     (case field of
        None \<Rightarrow> Inr None
      | Some kvs \<Rightarrow>
          bindE (mapE (\<lambda>(k, p). bindE (fromPayload dc (Some p)) (\<lambda>v. Inr (k, v))) kvs)
            (\<lambda>vs. Inr (Some vs)))"

definition deserializeFailureField ::
  "'a dataConverter_scheme \<Rightarrow> ProtoFailure option \<Rightarrow> error + DeserializedFailure option" where
  "deserializeFailureField dc field =
     (case field of
        None \<Rightarrow> Inr None
      | Some f \<Rightarrow> bindE (deserializeFailure dc f) (\<lambda>d. Inr (Some d)))"

text \<open>A helper applied below an optional parent object: \<open>if (!obj) return\<close>.\<close>

definition under :: "('a \<Rightarrow> error + 'b) \<Rightarrow> 'a option \<Rightarrow> error + 'b option" where
  "under f obj = (case obj of None \<Rightarrow> Inr None | Some x \<Rightarrow> bindE (f x) (\<lambda>y. Inr (Some y)))"

definition deserialize_job ::
  "'a dataConverter_scheme \<Rightarrow> (payload, ProtoFailure) job
     \<Rightarrow> error + (jsval, DeserializedFailure) job" where
  "deserialize_job dc j =
     bindE (under (\<lambda>sw. case sw of StartWorkflow args hs \<Rightarrow>
              bindE (deserializeArray dc args) (\<lambda>args'.
              bindE (deserializeMap dc hs) (\<lambda>hs'. Inr (StartWorkflow args' hs'))))
            (startWorkflow j)) (\<lambda>sw'.
     bindE (under (deserializeArray dc) (queryWorkflow j)) (\<lambda>qw'.
     bindE (under (deserializeArray dc) (cancelWorkflow j)) (\<lambda>cw'.
     bindE (under (deserializeArray dc) (signalWorkflow j)) (\<lambda>sg'.
     bindE (under (under (\<lambda>r. case r of Resolution completed fl cn \<Rightarrow>
              bindE (under (deserializeField dc) completed) (\<lambda>completed'.
              Inr (completed', fl, cn)))) (resolveActivity j)) (\<lambda>ra1.
     bindE (under (under (\<lambda>r. case r of Resolution completed fl cn \<Rightarrow>
              bindE (under (deserializeField dc) completed) (\<lambda>completed'.
              Inr (completed', fl, cn)))) (resolveChildWorkflowExecution j)) (\<lambda>rc1.
     bindE (under (under (\<lambda>(completed', fl, cn).
              bindE (under (deserializeFailureField dc) fl) (\<lambda>fl'.
              bindE (under (deserializeFailureField dc) cn) (\<lambda>cn'.
              Inr (Resolution completed' fl' cn'))))) ra1) (\<lambda>ra'.
     bindE (under (under (deserializeFailureField dc)) (resolveChildWorkflowExecutionStart j))
       (\<lambda>rs'.
     bindE (under (deserializeFailureField dc) (resolveSignalExternalWorkflow j)) (\<lambda>se'.
     bindE (under (under (\<lambda>(completed', fl, cn).
              bindE (under (deserializeFailureField dc) fl) (\<lambda>fl'.
              bindE (under (deserializeFailureField dc) cn) (\<lambda>cn'.
              Inr (Resolution completed' fl' cn'))))) rc1) (\<lambda>rc'.
     bindE (under (deserializeFailureField dc) (resolveRequestCancelExternalWorkflow j)) (\<lambda>rq'.
       Inr \<lparr> startWorkflow = sw', fireTimer = fireTimer j, queryWorkflow = qw',
             cancelWorkflow = cw', signalWorkflow = sg', resolveActivity = ra',
             notifyHasPatch = notifyHasPatch j, resolveChildWorkflowExecutionStart = rs',
             resolveChildWorkflowExecution = rc', resolveSignalExternalWorkflow = se',
             resolveRequestCancelExternalWorkflow = rq' \<rparr>)))))))))))"

text \<open>\<open>activation.jobs\<close> of a \<open>WFActivation\<close> message is always a list.\<close>

definition deserializeActivation ::
  "'a dataConverter_scheme \<Rightarrow> (payload, ProtoFailure) activation
     \<Rightarrow> error + (jsval, DeserializedFailure) activation" where
  "deserializeActivation dc act =
     bindE (mapE (deserialize_job dc) (case jobs act of None \<Rightarrow> [] | Some js \<Rightarrow> js)) (\<lambda>js'.
       Inr \<lparr> runId = runId act, isReplaying = isReplaying act, jobs = Some js' \<rparr>)"

subsection \<open>\<open>serializeCompletion\<close>\<close>

text \<open>
  The field encoders of \<open>WorkflowIOSerializer\<close>. \<open>serializeField\<close> tests
  \<open>field in obj\<close>, the others test the truthiness of \<open>obj[field]\<close>; lists and maps are
  always truthy, a thrown value may be falsy and is then left in place.
\<close>

definition serializeField :: "'a dataConverter_scheme \<Rightarrow> jsval option \<Rightarrow> error + payload option"
  where
  "serializeField dc field =
     (case field of
        None \<Rightarrow> Inr None
      | Some v \<Rightarrow> bindE (toPayload dc v) (\<lambda>p. Inr (Some p)))"

definition serializeArray ::
  "'a dataConverter_scheme \<Rightarrow> jsval list option \<Rightarrow> error + payload list option" where
  "serializeArray dc field =
     (case field of
        None \<Rightarrow> Inr None
      | Some vs \<Rightarrow> bindE (mapE (toPayload dc) vs) (\<lambda>ps. Inr (Some ps)))"

definition serializeMap ::
  "'a dataConverter_scheme \<Rightarrow> (string \<times> jsval) list option
     \<Rightarrow> error + (string \<times> payload) list option" where
  "serializeMap dc field =
     (case field of
        None \<Rightarrow> Inr None
      | Some kvs \<Rightarrow> bindE (mapToPayloads dc kvs) (\<lambda>ps. Inr (Some ps)))"

definition serializeFailureField ::
  "host \<Rightarrow> 'a dataConverter_scheme \<Rightarrow> DeserializedFailure jserror option
     \<Rightarrow> error + failure_field option" where
  "serializeFailureField h dc field =
     (case field of
        None \<Rightarrow> Inr None
      | Some err \<Rightarrow>
          (let encoded = bindE (errorToFailure h dc err) (\<lambda>f. Inr (Some (EncodedFailure f))) in
           case err of
             Thrown v \<Rightarrow> if truthy v then encoded else Inr (Some (LeftInPlace v))
           | _ \<Rightarrow> encoded))"

text \<open>The fifteen calls made for one command, in their order, grouped by member.\<close>

definition serialize_scheduleActivity ::
  "'a dataConverter_scheme \<Rightarrow> jsval scheduleActivity \<Rightarrow> error + payload scheduleActivity"
  where
  "serialize_scheduleActivity dc x =
     (case x of ScheduleActivity headerFields arguments \<Rightarrow>
        bindE (serializeMap dc headerFields) (\<lambda>headerFields'.
        bindE (serializeArray dc arguments) (\<lambda>arguments'.
          Inr (ScheduleActivity headerFields' arguments'))))"

definition serialize_respondToQuery ::
  "host \<Rightarrow> 'a dataConverter_scheme \<Rightarrow> (jsval, DeserializedFailure jserror) respondToQuery
     \<Rightarrow> error + (payload, failure_field) respondToQuery" where
  "serialize_respondToQuery h dc x =
     (case x of RespondToQuery succeeded fl \<Rightarrow>
        bindE (under (serializeField dc) succeeded) (\<lambda>succeeded'.
        bindE (serializeFailureField h dc fl) (\<lambda>fl'.
          Inr (RespondToQuery succeeded' fl'))))"

definition serialize_completeWorkflowExecution ::
  "'a dataConverter_scheme \<Rightarrow> jsval completeWorkflowExecution
     \<Rightarrow> error + payload completeWorkflowExecution" where
  "serialize_completeWorkflowExecution dc x =
     (case x of CompleteWorkflowExecution result \<Rightarrow>
        bindE (serializeField dc result) (\<lambda>result'. Inr (CompleteWorkflowExecution result')))"

definition serialize_failWorkflowExecution ::
  "host \<Rightarrow> 'a dataConverter_scheme \<Rightarrow> DeserializedFailure jserror failWorkflowExecution
     \<Rightarrow> error + failure_field failWorkflowExecution" where
  "serialize_failWorkflowExecution h dc x =
     (case x of FailWorkflowExecution fl \<Rightarrow>
        bindE (serializeFailureField h dc fl) (\<lambda>fl'. Inr (FailWorkflowExecution fl')))"

definition serialize_continueAsNewWorkflowExecution ::
  "'a dataConverter_scheme \<Rightarrow> jsval continueAsNewWorkflowExecution
     \<Rightarrow> error + payload continueAsNewWorkflowExecution" where
  "serialize_continueAsNewWorkflowExecution dc x =
     (case x of ContinueAsNewWorkflowExecution arguments memo header searchAttributes \<Rightarrow>
        bindE (serializeArray dc arguments) (\<lambda>arguments'.
        bindE (serializeMap dc memo) (\<lambda>memo'.
        bindE (serializeMap dc header) (\<lambda>header'.
        bindE (serializeMap dc searchAttributes) (\<lambda>searchAttributes'.
          Inr (ContinueAsNewWorkflowExecution arguments' memo' header' searchAttributes'))))))"

definition serialize_startChildWorkflowExecution ::
  "'a dataConverter_scheme \<Rightarrow> jsval startChildWorkflowExecution
     \<Rightarrow> error + payload startChildWorkflowExecution" where
  "serialize_startChildWorkflowExecution dc x =
     (case x of StartChildWorkflowExecution input memo header searchAttributes \<Rightarrow>
        bindE (serializeArray dc input) (\<lambda>input'.
        bindE (serializeMap dc memo) (\<lambda>memo'.
        bindE (serializeMap dc header) (\<lambda>header'.
        bindE (serializeMap dc searchAttributes) (\<lambda>searchAttributes'.
          Inr (StartChildWorkflowExecution input' memo' header' searchAttributes'))))))"

definition serialize_signalExternalWorkflowExecution ::
  "'a dataConverter_scheme \<Rightarrow> jsval signalExternalWorkflowExecution
     \<Rightarrow> error + payload signalExternalWorkflowExecution" where
  "serialize_signalExternalWorkflowExecution dc x =
     (case x of SignalExternalWorkflowExecution args \<Rightarrow>
        bindE (serializeArray dc args) (\<lambda>args'. Inr (SignalExternalWorkflowExecution args')))"

definition serialize_command ::
  "host \<Rightarrow> 'a dataConverter_scheme \<Rightarrow> (jsval, DeserializedFailure jserror) command
     \<Rightarrow> error + (payload, failure_field) command" where
  "serialize_command h dc c =
     bindE (under (serialize_scheduleActivity dc) (scheduleActivity c)) (\<lambda>sa.
     bindE (under (serialize_respondToQuery h dc) (respondToQuery c)) (\<lambda>rq.
     bindE (under (serialize_completeWorkflowExecution dc) (completeWorkflowExecution c)) (\<lambda>cw.
     bindE (under (serialize_failWorkflowExecution h dc) (failWorkflowExecution c)) (\<lambda>fw.
     bindE (under (serialize_continueAsNewWorkflowExecution dc)
              (continueAsNewWorkflowExecution c)) (\<lambda>ca.
     bindE (under (serialize_startChildWorkflowExecution dc) (startChildWorkflowExecution c))
       (\<lambda>sc.
     bindE (under (serialize_signalExternalWorkflowExecution dc)
              (signalExternalWorkflowExecution c)) (\<lambda>se.
       Inr \<lparr> scheduleActivity = sa, respondToQuery = rq, completeWorkflowExecution = cw,
             failWorkflowExecution = fw, continueAsNewWorkflowExecution = ca,
             startChildWorkflowExecution = sc, signalExternalWorkflowExecution = se,
             startTimer = startTimer c \<rparr>)))))))"

text \<open>
  \<open>serializeCompletion\<close>: the commands in order (a \<open>null\<close> entry contributes nothing),
  then \<open>serializeFailure(completion, 'failed')\<close>.
\<close>

definition serializeCompletion ::
  "host \<Rightarrow> 'a dataConverter_scheme \<Rightarrow> (jsval, DeserializedFailure jserror) completion
     \<Rightarrow> error + (payload, failure_field) completion" where
  "serializeCompletion h dc completion =
     bindE (under (mapE (under (serialize_command h dc))) (commands completion)) (\<lambda>commands'.
     bindE (serializeFailureField h dc (failed completion)) (\<lambda>failed'.
       Inr \<lparr> completion_runId = completion_runId completion, commands = commands',
             failed = failed' \<rparr>))"

section \<open>The scheduler (worker/src/workflow/vm.ts)\<close>

text \<open>
  Modelled from the spec: \<open>partition\<close> of \<open>worker/src/utils\<close> is missing from the
  sources. It splits a list, keeping the order, into the elements that satisfy the
  predicate and the others ("partition the batch into ordered sub-batches").
\<close>

definition partition_utils :: "'a list \<Rightarrow> ('a \<Rightarrow> bool) \<Rightarrow> 'a list \<times> 'a list" where
  "partition_utils xs p = (filter p xs, filter (\<lambda>x. \<not> p x) xs)"

text \<open>
  The sandbox: the three entry points of the workflow runtime that \<open>activate\<close> calls
  through \<open>vm.runInContext\<close>, as transitions of the sandbox state \<open>'s\<close> that return a
  value or throw. They are not code of this repository's worker and are parameters.
  \<open>wm_tryUnblockConditions\<close> stands for one call followed by the wait for the
  microtasks. \<open>reported_rejection\<close> is the value, if any, with which the worker's
  \<open>unhandledRejection\<close> handler calls \<open>setUnhandledRejection\<close> while \<open>activate\<close> waits for
  the timer ("Give unhandledRejection handler a chance to process").
\<close>

record 's sandbox =
  wm_activate :: "(jsval, DeserializedFailure) activation \<Rightarrow> nat \<Rightarrow> 's \<Rightarrow> (error + nat) \<times> 's"
  wm_tryUnblockConditions :: "'s \<Rightarrow> (error + nat) \<times> 's"
  wm_concludeActivation ::
    "'s \<Rightarrow> (error + (jsval, DeserializedFailure jserror) completion) \<times> 's"
  reported_rejection :: "'s \<Rightarrow> DeserializedFailure jserror option"

text \<open>
  \<open>VMWorkflow\<close>: the \<open>context\<close> member (\<open>None\<close> once disposed), the \<open>unhandledRejection\<close> member
  (\<open>undefined\<close> until set) and \<open>info.isReplaying\<close>.
\<close>

record 's VMWorkflow =
  vm_context :: "'s option"
  unhandledRejection :: "DeserializedFailure jserror"
  info_isReplaying :: bool

definition setUnhandledRejection :: "DeserializedFailure jserror \<Rightarrow> 's VMWorkflow \<Rightarrow> 's VMWorkflow"
  where
  "setUnhandledRejection err vm = vm \<lparr> unhandledRejection := err \<rparr>"

text \<open>
  What \<open>activate\<close> hands to \<open>encodeDelimited\<close>: the failed completion it builds for an
  unhandled rejection, or the serialized completion of the sandbox. The protobuf byte
  encoding itself is outside the model.
\<close>

datatype activation_result =
    FailedCompletion "string option" ProtoFailure
    \<comment> \<open>\<open>{runId, failed: {failure}}\<close>\<close>
  | SerializedCompletion "(payload, failure_field) completion"

text \<open>
  \<open>tryUnblockConditions\<close>: the loop has no bound in the source; the model counts it down
  with fuel and \<open>None\<close> is the loop still running when the fuel is spent.
\<close>

fun tryUnblockConditions :: "nat \<Rightarrow> 's sandbox \<Rightarrow> 's \<Rightarrow> ((error + unit) \<times> 's) option" where
  "tryUnblockConditions 0 sb s = None"
| "tryUnblockConditions (Suc fuel) sb s =
     (case wm_tryUnblockConditions sb s of
        (Inl e, s') \<Rightarrow> Some (Inl e, s')
      | (Inr numUnblocked, s') \<Rightarrow>
          if numUnblocked = 0 then Some (Inr (), s')
          else tryUnblockConditions fuel sb s')"

text \<open>
  The four partitions of \<open>activate\<close>, in the order of the \<open>for\<close> loop: patches, signals,
  rest (neither patch nor signal nor query), queries.
\<close>

definition job_batches :: "('p, 'f) job list \<Rightarrow> ('p, 'f) job list list" where
  "job_batches js =
     (let (patches, nonPatches) = partition_utils js (\<lambda>j. notifyHasPatch j \<noteq> None);
          (signals, nonSignals) = partition_utils nonPatches (\<lambda>j. signalWorkflow j \<noteq> None);
          (queries, rest) = partition_utils nonSignals (\<lambda>j. queryWorkflow j \<noteq> None)
      in [patches, signals, rest, queries])"

text \<open>The body of the \<open>for\<close> loop over the batches; \<open>batchIndex++\<close> only for a batch that runs.\<close>

fun invoke_batches ::
  "nat \<Rightarrow> 'a dataConverter_scheme \<Rightarrow> 's sandbox \<Rightarrow> (payload, ProtoFailure) activation
     \<Rightarrow> (payload, ProtoFailure) job list list \<Rightarrow> nat \<Rightarrow> 's \<Rightarrow> ((error + unit) \<times> 's) option"
  where
  "invoke_batches fuel dc sb act [] batchIndex s = Some (Inr (), s)"
| "invoke_batches fuel dc sb act (js # rest) batchIndex s =
     (if length js = 0 then invoke_batches fuel dc sb act rest batchIndex s
      else
        (case deserializeActivation dc (act \<lparr> jobs := Some js \<rparr>) of
           Inl e \<Rightarrow> Some (Inl e, s)
         | Inr activationMessage \<Rightarrow>
             (case wm_activate sb activationMessage batchIndex s of
                (Inl e, s') \<Rightarrow> Some (Inl e, s')
              | (Inr numBlockedConditions, s') \<Rightarrow>
                  (case (if numBlockedConditions > 0 then tryUnblockConditions fuel sb s'
                         else Some (Inr (), s')) of
                     None \<Rightarrow> None
                   | Some (Inl e, s'') \<Rightarrow> Some (Inl e, s'')
                   | Some (Inr u, s'') \<Rightarrow>
                       invoke_batches fuel dc sb act rest (batchIndex + 1) s''))))"

text \<open>
  Lines 186 to 199 of \<open>activate\<close>: conclude, let the rejection handler run, then either
  the failed completion or the serialized completion.
\<close>

definition conclude ::
  "host \<Rightarrow> 'a dataConverter_scheme \<Rightarrow> 's sandbox \<Rightarrow> (payload, ProtoFailure) activation
     \<Rightarrow> 's VMWorkflow \<Rightarrow> 's \<Rightarrow> (error + activation_result) \<times> 's VMWorkflow" where
  "conclude h dc sb act vm s =
     (case wm_concludeActivation sb s of
        (Inl e, s') \<Rightarrow> (Inl e, vm \<lparr> vm_context := Some s' \<rparr>)
      | (Inr completion, s') \<Rightarrow>
          (let vm1 = vm \<lparr> vm_context := Some s' \<rparr>;
               vm2 = (case reported_rejection sb s' of
                        None \<Rightarrow> vm1
                      | Some err \<Rightarrow> setUnhandledRejection err vm1)
           in if truthy_error (unhandledRejection vm2)
              then (case errorToFailure h dc (unhandledRejection vm2) of
                      Inl e \<Rightarrow> (Inl e, vm2)
                    | Inr f \<Rightarrow> (Inr (FailedCompletion (runId act) f), vm2))
              else (case serializeCompletion h dc completion of
                      Inl e \<Rightarrow> (Inl e, vm2)
                    | Inr serializedCompletion \<Rightarrow>
                        (Inr (SerializedCompletion serializedCompletion), vm2))))"

definition activate ::
  "nat \<Rightarrow> host \<Rightarrow> 'a dataConverter_scheme \<Rightarrow> 's sandbox \<Rightarrow> 's VMWorkflow
     \<Rightarrow> (payload, ProtoFailure) activation
     \<Rightarrow> ((error + activation_result) \<times> 's VMWorkflow) option" where
  "activate fuel h dc sb vm act =
     (case vm_context vm of
        None \<Rightarrow> Some (Inl (IllegalStateError ''Workflow isolate context uninitialized''), vm)
      | Some s \<Rightarrow>
          (let vm0 = vm \<lparr> info_isReplaying :=
                          (case isReplaying act of None \<Rightarrow> False | Some b \<Rightarrow> b) \<rparr> in
           case jobs act of
             None \<Rightarrow> Some (Inl (Error ''Expected workflow activation jobs to be defined''), vm0)
           | Some js \<Rightarrow>
               (case invoke_batches fuel dc sb act (job_batches js) 0 s of
                  None \<Rightarrow> None
                | Some (Inl e, s') \<Rightarrow> Some (Inl e, vm0 \<lparr> vm_context := Some s' \<rparr>)
                | Some (Inr u, s') \<Rightarrow> Some (conclude h dc sb act vm0 s'))))"

section \<open>Cancelling a scope (workflow/src/workflow.ts)\<close>

text \<open>
  \<open>state.runtime\<close> is used through \<open>getPromiseData\<close> only; the data of a promise is its
  \<open>cancellable\<close> flag and its scope, used through \<open>requestCancel\<close>, which changes the
  workflow state \<open>'w\<close> and may throw. Both are parameters: the runtime and the scope
  tree of this revision are not in the sources.
\<close>

record 'w promiseData =
  cancellable :: bool
  requestCancel :: "error \<Rightarrow> 'w \<Rightarrow> error option \<times> 'w"

definition cancel ::
  "('pr \<Rightarrow> 'w promiseData option) option \<Rightarrow> 'pr \<Rightarrow> string option \<Rightarrow> 'w
     \<Rightarrow> (error + unit) \<times> 'w" where
  "cancel runtime promise reason w =
     (case runtime of
        None \<Rightarrow> (Inl (Error ''Uninitialized workflow''), w)
      | Some getPromiseData \<Rightarrow>
          (case getPromiseData promise of
             None \<Rightarrow> (Inl (Error ''Expected to find promise scope, got undefined''), w)
           | Some d \<Rightarrow>
               if \<not> cancellable d then (Inl (Error ''Promise is not cancellable''), w)
               else
                 (case requestCancel d
                         (CancellationError (case reason of None \<Rightarrow> ''Cancelled'' | Some r \<Rightarrow> r))
                         w of
                    (None, w') \<Rightarrow> (Inr (), w')
                  | (Some e, w') \<Rightarrow>
                      (case e of
                         CancellationError m \<Rightarrow> (Inr (), w')
                       | _ \<Rightarrow> (Inl e, w')))))"



text \<open>
  Fixtures for the scheduler: a job with no member set, the activation of the spec's
  ordering scenario (a query, a signal and a patch notification, in that order), a
  sandbox without conditions whose completion holds one timer command, and a workflow
  instance around it.
\<close>

definition empty_job :: "('p, 'f) job" where
  "empty_job =
     \<lparr> startWorkflow = None, fireTimer = None, queryWorkflow = None, cancelWorkflow = None,
       signalWorkflow = None, resolveActivity = None, notifyHasPatch = None,
       resolveChildWorkflowExecutionStart = None, resolveChildWorkflowExecution = None,
       resolveSignalExternalWorkflow = None, resolveRequestCancelExternalWorkflow = None \<rparr>"

definition scenario_activation :: "(payload, ProtoFailure) activation" where
  "scenario_activation =
     \<lparr> runId = Some ''run-1'', isReplaying = Some False,
       jobs = Some [empty_job \<lparr> queryWorkflow := Some None \<rparr>,
                    empty_job \<lparr> signalWorkflow := Some None \<rparr>,
                    empty_job \<lparr> notifyHasPatch := Some ''my-patch'' \<rparr>] \<rparr>"

definition timer_command :: "('p, 'f) command" where
  "timer_command =
     \<lparr> scheduleActivity = None, respondToQuery = None, completeWorkflowExecution = None,
       failWorkflowExecution = None, continueAsNewWorkflowExecution = None,
       startChildWorkflowExecution = None, signalExternalWorkflowExecution = None,
       startTimer = Some ''1'' \<rparr>"

definition idle_sandbox :: "DeserializedFailure jserror option \<Rightarrow> unit sandbox" where
  "idle_sandbox rejection =
     \<lparr> wm_activate = (\<lambda>a i s. (Inr 0, s)),
       wm_tryUnblockConditions = (\<lambda>s. (Inr 0, s)),
       wm_concludeActivation = (\<lambda>s.
         (Inr \<lparr> completion_runId = Some ''run-1'', commands = Some [Some timer_command],
                failed = None \<rparr>, s)),
       reported_rejection = (\<lambda>s. rejection) \<rparr>"

definition fresh_workflow :: "'s \<Rightarrow> 's VMWorkflow" where
  "fresh_workflow s =
     \<lparr> vm_context = Some s, unhandledRejection = Thrown Undefined, info_isReplaying = False \<rparr>"

section \<open>The fields of a completion\<close>

text \<open>
  The values held by the payload-bearing fields of a completion and the errors held by
  its failure-bearing fields, as \<open>serializeCompletion\<close> declares them.
\<close>

definition values_of_list :: "'a list option \<Rightarrow> 'a list" where
  "values_of_list field = (case field of None \<Rightarrow> [] | Some xs \<Rightarrow> xs)"

definition values_of_map :: "(string \<times> 'a) list option \<Rightarrow> 'a list" where
  "values_of_map field = (case field of None \<Rightarrow> [] | Some kvs \<Rightarrow> map snd kvs)"

definition values_of_field :: "'a option \<Rightarrow> 'a list" where
  "values_of_field field = (case field of None \<Rightarrow> [] | Some x \<Rightarrow> [x])"

definition command_values :: "('p, 'f) command \<Rightarrow> 'p list" where
  "command_values c =
     (case scheduleActivity c of
        None \<Rightarrow> []
      | Some (ScheduleActivity headerFields arguments) \<Rightarrow>
          values_of_map headerFields @ values_of_list arguments) @
     (case respondToQuery c of
        None \<Rightarrow> []
      | Some (RespondToQuery succeeded fl) \<Rightarrow>
          (case succeeded of None \<Rightarrow> [] | Some response \<Rightarrow> values_of_field response)) @
     (case completeWorkflowExecution c of
        None \<Rightarrow> []
      | Some (CompleteWorkflowExecution result) \<Rightarrow> values_of_field result) @
     (case continueAsNewWorkflowExecution c of
        None \<Rightarrow> []
      | Some (ContinueAsNewWorkflowExecution arguments memo header searchAttributes) \<Rightarrow>
          values_of_list arguments @ values_of_map memo @ values_of_map header
          @ values_of_map searchAttributes) @
     (case startChildWorkflowExecution c of
        None \<Rightarrow> []
      | Some (StartChildWorkflowExecution input memo header searchAttributes) \<Rightarrow>
          values_of_list input @ values_of_map memo @ values_of_map header
          @ values_of_map searchAttributes) @
     (case signalExternalWorkflowExecution c of
        None \<Rightarrow> []
      | Some (SignalExternalWorkflowExecution args) \<Rightarrow> values_of_list args)"

definition command_errors :: "('p, 'f) command \<Rightarrow> 'f list" where
  "command_errors c =
     (case respondToQuery c of
        None \<Rightarrow> []
      | Some (RespondToQuery succeeded fl) \<Rightarrow> values_of_field fl) @
     (case failWorkflowExecution c of
        None \<Rightarrow> []
      | Some (FailWorkflowExecution fl) \<Rightarrow> values_of_field fl)"

definition completion_values :: "('p, 'f) completion \<Rightarrow> 'p list" where
  "completion_values completion =
     concat (map (\<lambda>c. case c of None \<Rightarrow> [] | Some x \<Rightarrow> command_values x)
               (values_of_list (commands completion)))"

definition completion_errors :: "('p, 'f) completion \<Rightarrow> 'f list" where
  "completion_errors completion =
     concat (map (\<lambda>c. case c of None \<Rightarrow> [] | Some x \<Rightarrow> command_errors x)
               (values_of_list (commands completion)))
     @ values_of_field (failed completion)"

section \<open>Properties of the codec chain\<close>

lemma composite_toPayload_find:
  "composite_toPayload cs v =
     (case find (\<lambda>c. toPayload c v \<noteq> Inl UnsupportedTypeError) cs of
        None \<Rightarrow> Inl (ValueError ''Cannot serialize'')
      | Some c \<Rightarrow> toPayload c v)"
  by (induction cs) (auto split: sum.splits)




lemma converterByEncoding_snoc:
  "converterByEncoding (cs @ [c]) k =
     (if encodingType c = k then Some c else converterByEncoding cs k)"
  by (simp add: converterByEncoding_def)

lemma converterByEncoding_Nil: "converterByEncoding [] k = None"
  by (simp add: converterByEncoding_def)

lemma converterByEncoding_find:
  "converterByEncoding cs k = find (\<lambda>c. encodingType c = k) (rev cs)"
  by (induction cs rule: rev_induct) (simp_all add: converterByEncoding_Nil converterByEncoding_snoc)

lemma converterByEncoding_None:
  "(converterByEncoding cs k = None) = (\<forall>c \<in> set cs. encodingType c \<noteq> k)"
  by (auto simp add: converterByEncoding_find find_None_iff)

lemma converterByEncoding_Some:
  "converterByEncoding cs k = Some c \<Longrightarrow> c \<in> set cs \<and> encodingType c = k"
  by (induction cs rule: rev_induct)
     (auto simp add: converterByEncoding_Nil converterByEncoding_snoc split: if_splits)

lemma converterByEncoding_unique:
  assumes "distinct (map encodingType cs)" and "c \<in> set cs"
  shows "converterByEncoding cs (encodingType c) = Some c"
proof -
  from assms(2) have "converterByEncoding cs (encodingType c) \<noteq> None"
    by (auto simp add: converterByEncoding_None)
  then obtain c' where c': "converterByEncoding cs (encodingType c) = Some c'" by auto
  then have "c' \<in> set cs" and "encodingType c' = encodingType c"
    using converterByEncoding_Some by blast+
  with assms have "c' = c"
    by (meson distinct_map inj_onD)
  with c' show ?thesis by simp
qed

lemmas encoding_names =
  METADATA_ENCODING_KEY_def METADATA_MESSAGE_TYPE_KEY_def METADATA_ENCODING_NULL_def
  METADATA_ENCODING_RAW_def METADATA_ENCODING_JSON_def METADATA_ENCODING_PROTOBUF_JSON_def
  METADATA_ENCODING_PROTOBUF_def

lemma distinct_default_chain: "distinct (map encodingType (default_chain h rt))"
  by (simp add: default_chain_def UndefinedDataConverter_def BinaryDataConverter_def
      ProtobufJsonDataConverter_def ProtobufBinaryDataConverter_def JsonDataConverter_def
      encoding_names)

lemma default_chain_lookup:
  "c \<in> set (default_chain h rt) \<Longrightarrow>
   converterByEncoding (default_chain h rt) (encodingType c) = Some c"
  by (rule converterByEncoding_unique [OF distinct_default_chain])

lemma default_lookup_null:
  "converterByEncoding (default_chain h rt) METADATA_ENCODING_NULL = Some UndefinedDataConverter"
  using default_chain_lookup [of UndefinedDataConverter h rt]
  by (simp add: default_chain_def UndefinedDataConverter_def)

lemma default_lookup_raw:
  "converterByEncoding (default_chain h rt) METADATA_ENCODING_RAW = Some BinaryDataConverter"
  using default_chain_lookup [of BinaryDataConverter h rt]
  by (simp add: default_chain_def BinaryDataConverter_def)

lemma default_lookup_json:
  "converterByEncoding (default_chain h rt) METADATA_ENCODING_JSON = Some (JsonDataConverter h)"
  using default_chain_lookup [of "JsonDataConverter h" h rt]
  by (simp add: default_chain_def JsonDataConverter_def)

lemma default_toPayload_undefined:
  "composite_toPayload (default_chain h rt) Undefined =
     Inr \<lparr> metadata = Some [(METADATA_ENCODING_KEY, u8 METADATA_ENCODING_NULL)], data = None \<rparr>"
  by (simp add: default_chain_def UndefinedDataConverter_def)

lemma default_toPayload_binary:
  "composite_toPayload (default_chain h rt) (Uint8Array b) =
     Inr \<lparr> metadata = Some [(METADATA_ENCODING_KEY, u8 METADATA_ENCODING_RAW)], data = Some b \<rparr>"
  by (simp add: default_chain_def UndefinedDataConverter_def BinaryDataConverter_def)

lemma default_toPayload_json:
  "is_json_structure v \<Longrightarrow> JSON_stringify h v = Inr s \<Longrightarrow>
   composite_toPayload (default_chain h rt) v =
     Inr \<lparr> metadata = Some [(METADATA_ENCODING_KEY, u8 METADATA_ENCODING_JSON)],
           data = Some (u8 s) \<rparr>"
  by (cases v)
     (simp_all add: default_chain_def UndefinedDataConverter_def BinaryDataConverter_def
        ProtobufJsonDataConverter_def ProtobufBinaryDataConverter_def JsonDataConverter_def)

text \<open>
  Claim C3. With the default chain (undefined, binary, protobuf-JSON, protobuf-binary,
  JSON) a value is returned unchanged by decoding the payload its encoding produced, when
  it is \<open>undefined\<close>, a \<open>Uint8Array\<close>, or a JSON structure that the host's
  \<open>JSON.stringify\<close> and \<open>JSON.parse\<close> round-trip. Any registry \<open>rt\<close> may be supplied.
\<close>

theorem codec_round_trip:
  assumes "v = Undefined \<or> (\<exists>b. v = Uint8Array b) \<or>
           (is_json_structure v \<and> (\<exists>s. JSON_stringify h v = Inr s \<and> JSON_parse h s = Inr v))"
  shows "\<exists>p. toPayload (DefaultDataConverter h rt) v = Inr p \<and>
             fromPayload (DefaultDataConverter h rt) (Some p) = Inr v"
proof -
  consider (undef) "v = Undefined" | (bin) b where "v = Uint8Array b"
    | (json) s where "is_json_structure v" "JSON_stringify h v = Inr s" "JSON_parse h s = Inr v"
    using assms by blast
  then show ?thesis
  proof cases
    case undef
    then show ?thesis
      by (simp add: DefaultDataConverter_def CompositeDataConverter_def
          default_toPayload_undefined composite_fromPayload_def u8_def str_def
          default_lookup_null UndefinedDataConverter_def)
  next
    case bin
    then show ?thesis
      by (simp add: DefaultDataConverter_def CompositeDataConverter_def
          default_toPayload_binary composite_fromPayload_def u8_def str_def
          default_lookup_raw BinaryDataConverter_def)
  next
    case json
    then show ?thesis
      by (simp add: DefaultDataConverter_def CompositeDataConverter_def
          default_toPayload_json composite_fromPayload_def u8_def str_def
          default_lookup_json JsonDataConverter_def)
  qed
qed

theorem codec_round_trip_witness:
  "(\<exists>p. toPayload (DefaultDataConverter simple_host None) (Bool True) = Inr p \<and>
        fromPayload (DefaultDataConverter simple_host None) (Some p) = Inr (Bool True)) \<and>
   (\<exists>p. toPayload (DefaultDataConverter simple_host None) (Uint8Array ''ab'') = Inr p \<and>
        fromPayload (DefaultDataConverter simple_host None) (Some p) = Inr (Uint8Array ''ab'')) \<and>
   (\<exists>p. toPayload (DefaultDataConverter simple_host None) Undefined = Inr p \<and>
        fromPayload (DefaultDataConverter simple_host None) (Some p) = Inr Undefined)"
  using codec_round_trip [of "Bool True" simple_host None]
        codec_round_trip [of "Uint8Array ''ab''" simple_host None]
        codec_round_trip [of Undefined simple_host None]
  by (simp add: simple_host_def)

lemma converterByEncoding_mset:
  assumes "mset cs' = mset cs" and "distinct (map encodingType cs)"
  shows "converterByEncoding cs' k = converterByEncoding cs k"
proof -
  from assms(1) have sets: "set cs' = set cs" by (rule mset_eq_setD)
  from assms(1) have "mset (map encodingType cs') = mset (map encodingType cs)" by simp
  with assms(2) have d': "distinct (map encodingType cs')"
    by (metis mset_eq_imp_distinct_iff)
  show ?thesis
  proof (cases "converterByEncoding cs k")
    case None
    then have "\<forall>c \<in> set cs'. encodingType c \<noteq> k"
      using sets by (simp add: converterByEncoding_None)
    then have "converterByEncoding cs' k = None"
      by (simp add: converterByEncoding_None)
    with None show ?thesis by simp
  next
    case (Some c)
    then have "c \<in> set cs" and "encodingType c = k"
      using converterByEncoding_Some by blast+
    then show ?thesis
      using Some sets converterByEncoding_unique [OF d', of c] by simp
  qed
qed

text \<open>
  Claim C4. \<open>CompositeDataConverter.fromPayload\<close> raises \<open>ValueError\<close> when the
  payload has no metadata and when no codec of the chain is named by the encoding entry
  of the metadata; otherwise it returns what a codec of that name returns. The codec is
  found from the metadata alone (the data of \<open>p\<close> is arbitrary). When the names of the
  chain are distinct, so that there is one codec of that name, it is that codec which
  decodes, in the chain \<open>cs\<close> and in every reordering \<open>cs'\<close> of it.
\<close>

theorem fromPayload_routes_by_encoding:
  "(metadata p = None \<longrightarrow>
      fromPayload (CompositeDataConverter cs) (Some p) =
        Inl (ValueError ''Missing payload metadata'')) \<and>
   (metadata p = Some md \<longrightarrow>
      (\<forall>c \<in> set cs. encodingType c \<noteq> str (map_of md METADATA_ENCODING_KEY)) \<longrightarrow>
      fromPayload (CompositeDataConverter cs) (Some p) =
        Inl (ValueError (''Unknown encoding: '' @ str (map_of md METADATA_ENCODING_KEY)))) \<and>
   (metadata p = Some md \<longrightarrow>
      (\<exists>c \<in> set cs. encodingType c = str (map_of md METADATA_ENCODING_KEY)) \<longrightarrow>
      (\<exists>c \<in> set cs. encodingType c = str (map_of md METADATA_ENCODING_KEY) \<and>
         fromPayload (CompositeDataConverter cs) (Some p) = fromPayload c (Some p))) \<and>
   (metadata p = Some md \<longrightarrow>
      distinct (map encodingType cs) \<longrightarrow> c \<in> set cs \<longrightarrow>
      encodingType c = str (map_of md METADATA_ENCODING_KEY) \<longrightarrow>
      mset cs' = mset cs \<longrightarrow>
      fromPayload (CompositeDataConverter cs') (Some p) = fromPayload c (Some p))"
proof (intro conjI impI)
  assume "metadata p = None"
  then show "fromPayload (CompositeDataConverter cs) (Some p) =
      Inl (ValueError ''Missing payload metadata'')"
    by (simp add: CompositeDataConverter_def composite_fromPayload_def)
next
  assume "metadata p = Some md"
    and "\<forall>c \<in> set cs. encodingType c \<noteq> str (map_of md METADATA_ENCODING_KEY)"
  then show "fromPayload (CompositeDataConverter cs) (Some p) =
      Inl (ValueError (''Unknown encoding: '' @ str (map_of md METADATA_ENCODING_KEY)))"
    using converterByEncoding_None [of cs "str (map_of md METADATA_ENCODING_KEY)"]
    by (simp add: CompositeDataConverter_def composite_fromPayload_def)
next
  assume md: "metadata p = Some md"
    and "\<exists>c \<in> set cs. encodingType c = str (map_of md METADATA_ENCODING_KEY)"
  then have "converterByEncoding cs (str (map_of md METADATA_ENCODING_KEY)) \<noteq> None"
    by (simp add: converterByEncoding_None)
  then obtain c where found: "converterByEncoding cs (str (map_of md METADATA_ENCODING_KEY)) = Some c"
    by blast
  from converterByEncoding_Some [OF found] have "c \<in> set cs"
    and "encodingType c = str (map_of md METADATA_ENCODING_KEY)" by simp_all
  moreover from md found have "fromPayload (CompositeDataConverter cs) (Some p) = fromPayload c (Some p)"
    by (simp add: CompositeDataConverter_def composite_fromPayload_def)
  ultimately show "\<exists>c \<in> set cs. encodingType c = str (map_of md METADATA_ENCODING_KEY) \<and>
      fromPayload (CompositeDataConverter cs) (Some p) = fromPayload c (Some p)"
    by blast
next
  assume md: "metadata p = Some md" and d: "distinct (map encodingType cs)"
    and c: "c \<in> set cs" "encodingType c = str (map_of md METADATA_ENCODING_KEY)"
    and perm: "mset cs' = mset cs"
  have "converterByEncoding cs' (str (map_of md METADATA_ENCODING_KEY)) = Some c"
    using converterByEncoding_mset [OF perm d] converterByEncoding_unique [OF d c(1)] c(2)
    by simp
  with md show "fromPayload (CompositeDataConverter cs') (Some p) = fromPayload c (Some p)"
    by (simp add: CompositeDataConverter_def composite_fromPayload_def)
qed

theorem fromPayload_routes_by_encoding_witness:
  "fromPayload (CompositeDataConverter [UndefinedDataConverter, BinaryDataConverter])
       (Some \<lparr> metadata = None, data = Some ''ab'' \<rparr>) =
     Inl (ValueError ''Missing payload metadata'') \<and>
   fromPayload (CompositeDataConverter [UndefinedDataConverter, BinaryDataConverter])
       (Some \<lparr> metadata = Some [(''encoding'', ''json/plain'')], data = Some ''ab'' \<rparr>) =
     Inl (ValueError ''Unknown encoding: json/plain'') \<and>
   fromPayload (CompositeDataConverter [BinaryDataConverter, UndefinedDataConverter])
       (Some \<lparr> metadata = Some [(''encoding'', ''binary/plain'')], data = Some ''ab'' \<rparr>) =
     Inr (Uint8Array ''ab'')"
proof -
  let ?cs = "[UndefinedDataConverter, BinaryDataConverter]"
  let ?p = "\<lambda>md. \<lparr> metadata = md, data = Some ''ab'' \<rparr>"
  have names: "map encodingType ?cs = [''binary/null'', ''binary/plain'']"
    by (simp add: UndefinedDataConverter_def BinaryDataConverter_def
        METADATA_ENCODING_NULL_def METADATA_ENCODING_RAW_def)
  have d: "distinct (map encodingType ?cs)"
    unfolding names by simp
  have unknown: "\<forall>c \<in> set ?cs.
      encodingType c \<noteq> str (map_of [(''encoding'', ''json/plain'')] METADATA_ENCODING_KEY)"
    using names by (simp add: str_def METADATA_ENCODING_KEY_def)
  have known: "encodingType BinaryDataConverter =
      str (map_of [(''encoding'', ''binary/plain'')] METADATA_ENCODING_KEY)"
    using names by (simp add: str_def METADATA_ENCODING_KEY_def)
  have perm: "mset [BinaryDataConverter, UndefinedDataConverter] = mset ?cs"
    by simp
  have dec: "fromPayload BinaryDataConverter
      (Some (?p (Some [(''encoding'', ''binary/plain'')]))) = Inr (Uint8Array ''ab'')"
    by (simp add: BinaryDataConverter_def)
  from fromPayload_routes_by_encoding [of "?p None" ?cs]
  have "fromPayload (CompositeDataConverter ?cs) (Some (?p None)) =
      Inl (ValueError ''Missing payload metadata'')"
    by simp
  moreover
  from fromPayload_routes_by_encoding
    [of "?p (Some [(''encoding'', ''json/plain'')])" ?cs "[(''encoding'', ''json/plain'')]"]
    unknown
  have "fromPayload (CompositeDataConverter ?cs)
      (Some (?p (Some [(''encoding'', ''json/plain'')]))) =
      Inl (ValueError ''Unknown encoding: json/plain'')"
    by (simp add: str_def METADATA_ENCODING_KEY_def)
  moreover
  from fromPayload_routes_by_encoding
    [of "?p (Some [(''encoding'', ''binary/plain'')])" ?cs "[(''encoding'', ''binary/plain'')]"
      BinaryDataConverter "[BinaryDataConverter, UndefinedDataConverter]"]
    d known perm dec
  have "fromPayload (CompositeDataConverter [BinaryDataConverter, UndefinedDataConverter])
      (Some (?p (Some [(''encoding'', ''binary/plain'')]))) = Inr (Uint8Array ''ab'')"
    by simp
  ultimately show ?thesis by simp
qed

text \<open>
  \<open>fromPayloads\<close> guards the upper end of the index only: at index \<open>-1\<close> the composite
  converter is asked to decode \<open>undefined\<close> and throws.
\<close>

theorem fromPayloads_negative_index_counterexample:
  "fromPayloads (CompositeDataConverter [UndefinedDataConverter]) (- 1)
       (Some [\<lparr> metadata = Some [(''encoding'', ''binary/null'')], data = None \<rparr>]) =
     fromPayload (CompositeDataConverter [UndefinedDataConverter]) None \<and>
   fromPayload (CompositeDataConverter [UndefinedDataConverter]) None =
     Inl (TypeError ''Cannot read properties of undefined (reading metadata)'')"
  by (simp add: fromPayloads_def js_index_def CompositeDataConverter_def
      composite_fromPayload_def)

text \<open>
  Claim C10 (amended). \<open>fromPayloads\<close> returns \<open>undefined\<close> without decoding when the
  list is \<open>undefined\<close> or \<open>null\<close> or the index is at least its length; for an index
  inside the list it decodes that element; a negative index is not guarded and
  \<open>fromPayload\<close> is applied to \<open>undefined\<close>.
\<close>

theorem fromPayloads_guard:
  "((payloads = None \<or> (\<exists>ps. payloads = Some ps \<and> int (length ps) \<le> index)) \<longrightarrow>
      fromPayloads dc index payloads = Inr Undefined) \<and>
   (payloads = Some ps \<longrightarrow> 0 \<le> index \<longrightarrow> index < int (length ps) \<longrightarrow>
      fromPayloads dc index payloads = fromPayload dc (Some (ps ! nat index))) \<and>
   (payloads = Some ps \<longrightarrow> index < 0 \<longrightarrow>
      fromPayloads dc index payloads = fromPayload dc None)"
  by (auto simp add: fromPayloads_def js_index_def)

theorem fromPayloads_guard_witness:
  "fromPayloads BinaryDataConverter 0 None = Inr Undefined \<and>
   fromPayloads BinaryDataConverter 1
       (Some [\<lparr> metadata = None, data = Some ''ab'' \<rparr>]) = Inr Undefined \<and>
   fromPayloads BinaryDataConverter 0
       (Some [\<lparr> metadata = None, data = Some ''ab'' \<rparr>]) = Inr (Uint8Array ''ab'') \<and>
   fromPayloads BinaryDataConverter (- 1)
       (Some [\<lparr> metadata = None, data = Some ''ab'' \<rparr>]) =
     Inl (TypeError ''Cannot read properties of undefined (reading data)'')"
proof -
  let ?ps = "[\<lparr> metadata = None, data = Some ''ab'' \<rparr>]"
  have dec: "fromPayload BinaryDataConverter (Some (?ps ! nat 0)) = Inr (Uint8Array ''ab'')"
    by (simp add: BinaryDataConverter_def)
  have und: "fromPayload BinaryDataConverter None =
      Inl (TypeError ''Cannot read properties of undefined (reading data)'')"
    by (simp add: BinaryDataConverter_def undefined_fromPayload_arg_def)
  from fromPayloads_guard [of None 0 BinaryDataConverter ?ps]
    fromPayloads_guard [of "Some ?ps" 1 BinaryDataConverter ?ps]
    fromPayloads_guard [of "Some ?ps" 0 BinaryDataConverter ?ps]
    fromPayloads_guard [of "Some ?ps" "- 1" BinaryDataConverter ?ps]
    dec und
  show ?thesis by simp
qed

section \<open>Properties of the protobuf codecs\<close>






section \<open>Properties of the failure mapping\<close>

text \<open>
  Claim C2 (the code departs from it). A \<open>ChildWorkflowFailure\<close> is mapped by
  \<open>errorToFailure\<close> to a message with \<open>childWorkflowExecutionFailureInfo\<close>, and the
  adapted \<open>failureToError\<close> maps that message to a plain \<open>TemporalFailure\<close>: the class and
  its fields are lost, and so is the cause chain. Only the message survives.
\<close>

theorem child_workflow_failure_not_restored:
  "\<exists>f r. errorToFailure h dc child_failure_example = Inr f \<and>
         childWorkflowExecutionFailureInfo (info f) \<noteq> None \<and>
         failureToError dc f = Inr r \<and>
         err_class r = TemporalFailure \<and>
         err_message r = ''Child Workflow execution failed'' \<and>
         cause_depth r = 0 \<and> cause_depth child_failure_example = 1"
  by (simp add: child_failure_example_def details_toPayloads_def no_info_def arrayFromPayloads_def
      new_TemporalFailure_def Boolean_def)

section \<open>Properties of the scheduler\<close>




lemma bindE_Inr_iff: "(bindE m f = Inr y) = (\<exists>x. m = Inr x \<and> f x = Inr y)"
  by (cases m) (simp_all add: bindE_def)

lemma bindE_Inl_iff: "(bindE m f = Inl e) = (m = Inl e \<or> (\<exists>x. m = Inr x \<and> f x = Inl e))"
  by (cases m) (simp_all add: bindE_def)


lemma mapE_Inr: "mapE f xs = Inr ys \<Longrightarrow> list_all2 (\<lambda>x y. f x = Inr y) xs ys"
  by (induction xs arbitrary: ys) (auto split: sum.splits)

lemma mapE_Inl: "mapE f xs = Inl e \<Longrightarrow> \<exists>x \<in> set xs. f x = Inl e"
  by (induction xs) (auto split: sum.splits)









section \<open>Properties of \<open>cancel\<close>\<close>

text \<open>
  Claim C9. When the runtime has no data for the promise, or the data says the promise
  is not cancellable, \<open>cancel\<close> throws a plain \<open>Error\<close> (no failure of the taxonomy, no
  \<open>CancellationError\<close>), the scope is not asked to cancel and the workflow state is
  unchanged. The same holds without a runtime.
\<close>

theorem cancel_programming_error:
  "(runtime = Some getPromiseData \<longrightarrow> getPromiseData promise = None \<longrightarrow>
      cancel runtime promise reason w =
        (Inl (Error ''Expected to find promise scope, got undefined''), w)) \<and>
   (runtime = Some getPromiseData \<longrightarrow> getPromiseData promise = Some d \<longrightarrow> \<not> cancellable d \<longrightarrow>
      cancel runtime promise reason w = (Inl (Error ''Promise is not cancellable''), w)) \<and>
   (runtime = None \<longrightarrow> cancel runtime promise reason w = (Inl (Error ''Uninitialized workflow''), w))"
  by (simp add: cancel_def)

theorem cancel_programming_error_witness:
  "cancel (Some (\<lambda>p. if p = (1::nat) then
        Some \<lparr> cancellable = False, requestCancel = (\<lambda>e w. (None, Suc w)) \<rparr> else None))
      2 None (0::nat) =
     (Inl (Error ''Expected to find promise scope, got undefined''), 0) \<and>
   cancel (Some (\<lambda>p. if p = (1::nat) then
        Some \<lparr> cancellable = False, requestCancel = (\<lambda>e w. (None, Suc w)) \<rparr> else None))
      1 None (0::nat) =
     (Inl (Error ''Promise is not cancellable''), 0) \<and>
   cancel (None :: (nat \<Rightarrow> nat promiseData option) option) 1 None (0::nat) =
     (Inl (Error ''Uninitialized workflow''), 0)"
proof -
  let ?data = "\<lparr> cancellable = False, requestCancel = (\<lambda>e w. (None, Suc w)) \<rparr> :: nat promiseData"
  let ?get = "\<lambda>p. if p = (1::nat) then Some ?data else None"
  have a: "?get 2 = None" by simp
  have b: "?get 1 = Some ?data" by simp
  have c: "\<not> cancellable ?data" by simp
  from cancel_programming_error [of "Some ?get" ?get 2 None 0 ?data]
    cancel_programming_error [of "Some ?get" ?get 1 None 0 ?data]
    cancel_programming_error [of None ?get 1 None 0 ?data] a b c
  show ?thesis by simp
qed

section \<open>Properties of the unhandled rejection\<close>

lemma conclude_truthy_rejection:
  assumes "conclude h dc sb act vm s = (Inr res, vm')"
    and "truthy_error (unhandledRejection vm')"
  shows "\<exists>f. errorToFailure h dc (unhandledRejection vm') = Inr f \<and>
             res = FailedCompletion (runId act) f"
  using assms
  by (auto simp add: conclude_def Let_def setUnhandledRejection_def
      split: prod.splits sum.splits option.splits if_splits)

lemma activate_truthy_rejection:
  assumes "activate fuel h dc sb vm act = Some (Inr res, vm')"
    and "truthy_error (unhandledRejection vm')"
  shows "\<exists>f. errorToFailure h dc (unhandledRejection vm') = Inr f \<and>
             res = FailedCompletion (runId act) f"
proof -
  from assms(1) obtain vm0 s where "conclude h dc sb act vm0 s = (Inr res, vm')"
    by (auto simp add: activate_def Let_def split: option.splits sum.splits prod.splits)
  from conclude_truthy_rejection [OF this assms(2)] show ?thesis .
qed

text \<open>
  Claim C7 (the code departs from it). The workflow rejects a promise without a reason
  (\<open>Promise.reject()\<close>) and nobody handles it: the handler calls
  \<open>setUnhandledRejection(undefined)\<close>. \<open>activate\<close> tests the truthiness of the member, so
  the rejection is not seen, and the completion of the sandbox with its timer command
  is returned instead of a failed completion.
\<close>

theorem falsy_rejection_is_swallowed:
  "activate 0 simple_host (DefaultDataConverter simple_host None)
       (idle_sandbox (Some (Thrown Undefined))) (fresh_workflow ()) scenario_activation =
     Some (Inr (SerializedCompletion
                  \<lparr> completion_runId = Some ''run-1'', commands = Some [Some timer_command],
                    failed = None \<rparr>),
           setUnhandledRejection (Thrown Undefined) (fresh_workflow ())) \<and>
   activate 0 simple_host (DefaultDataConverter simple_host None)
       (idle_sandbox (Some (ErrorInstance ''boom'' None))) (fresh_workflow ()) scenario_activation =
     Some (Inr (FailedCompletion (Some ''run-1'')
                  (Failure (Some ''boom'') (Some []) (Some ''TypeScriptSDK'') None no_info)),
           setUnhandledRejection (ErrorInstance ''boom'' None) (fresh_workflow ()))"
  by code_simp

section \<open>Properties of the completion serializer\<close>

lemma under_Inr: "under f obj = Inr r \<Longrightarrow> obj = Some x \<Longrightarrow> \<exists>y. f x = Inr y"
  by (auto simp add: under_def bindE_Inr_iff)

lemma under_Inl: "under f obj = Inl e \<Longrightarrow> \<exists>x. obj = Some x \<and> f x = Inl e"
  by (cases obj) (auto simp add: under_def bindE_Inl_iff)

lemma serializeField_Inr:
  "serializeField dc field = Inr r \<Longrightarrow> v \<in> set (values_of_field field) \<Longrightarrow> \<exists>p. toPayload dc v = Inr p"
  by (cases field) (auto simp add: serializeField_def values_of_field_def bindE_Inr_iff)

lemma serializeField_Inl:
  "serializeField dc field = Inl e \<Longrightarrow> \<exists>v \<in> set (values_of_field field). toPayload dc v = Inl e"
  by (cases field) (auto simp add: serializeField_def values_of_field_def bindE_Inl_iff)

lemma serializeArray_Inr:
  "serializeArray dc field = Inr r \<Longrightarrow> v \<in> set (values_of_list field) \<Longrightarrow> \<exists>p. toPayload dc v = Inr p"
  by (cases field)
     (auto simp add: serializeArray_def values_of_list_def bindE_Inr_iff in_set_conv_nth
        list_all2_conv_all_nth dest!: mapE_Inr)

lemma serializeArray_Inl:
  "serializeArray dc field = Inl e \<Longrightarrow> \<exists>v \<in> set (values_of_list field). toPayload dc v = Inl e"
  by (cases field)
     (auto simp add: serializeArray_def values_of_list_def bindE_Inl_iff dest!: mapE_Inl)

lemma serializeMap_Inr:
  "serializeMap dc field = Inr r \<Longrightarrow> v \<in> set (values_of_map field) \<Longrightarrow> \<exists>p. toPayload dc v = Inr p"
proof (cases field)
  case None
  assume "v \<in> set (values_of_map field)"
  with None show ?thesis by (simp add: values_of_map_def)
next
  case (Some kvs)
  assume "serializeMap dc field = Inr r" and "v \<in> set (values_of_map field)"
  with Some obtain ps k where
    all: "list_all2 (\<lambda>x y. (case x of (k, v) \<Rightarrow>
            (case toPayload dc v of Inl e \<Rightarrow> Inl e | Inr p \<Rightarrow> Inr (k, p))) = Inr y) kvs ps"
    and kv: "(k, v) \<in> set kvs"
    by (auto simp add: serializeMap_def mapToPayloads_def values_of_map_def bindE_Inr_iff
        dest!: mapE_Inr)
  from kv obtain i where "i < length kvs" "kvs ! i = (k, v)" by (auto simp add: in_set_conv_nth)
  with all have "(case toPayload dc v of Inl e \<Rightarrow> Inl e | Inr p \<Rightarrow> Inr (k, p)) = Inr (ps ! i)"
    by (auto simp add: list_all2_conv_all_nth)
  then show ?thesis by (cases "toPayload dc v") auto
qed

lemma serializeMap_Inl:
  "serializeMap dc field = Inl e \<Longrightarrow> \<exists>v \<in> set (values_of_map field). toPayload dc v = Inl e"
proof (cases field)
  case None
  assume "serializeMap dc field = Inl e"
  with None show ?thesis by (simp add: serializeMap_def)
next
  case (Some kvs)
  assume "serializeMap dc field = Inl e"
  with Some obtain k v where kv: "(k, v) \<in> set kvs"
    and "(case toPayload dc v of Inl e \<Rightarrow> Inl e | Inr p \<Rightarrow> Inr (k, p)) = Inl e"
    by (auto simp add: serializeMap_def mapToPayloads_def bindE_Inl_iff dest!: mapE_Inl)
  then have "toPayload dc v = Inl e" by (cases "toPayload dc v") auto
  with kv Some show ?thesis by (force simp add: values_of_map_def)
qed

lemma serializeFailureField_Inr:
  "serializeFailureField h dc field = Inr r \<Longrightarrow> x \<in> set (values_of_field field) \<Longrightarrow>
   truthy_error x \<Longrightarrow> \<exists>f. errorToFailure h dc x = Inr f"
  by (cases field; cases x)
     (auto simp add: serializeFailureField_def values_of_field_def bindE_Inr_iff Let_def
        split: if_splits)

lemma serializeFailureField_Inl:
  "serializeFailureField h dc field = Inl e \<Longrightarrow>
   \<exists>x \<in> set (values_of_field field). truthy_error x \<and> errorToFailure h dc x = Inl e"
proof (cases field)
  case None
  assume "serializeFailureField h dc field = Inl e"
  with None show ?thesis by (simp add: serializeFailureField_def)
next
  case (Some x)
  assume "serializeFailureField h dc field = Inl e"
  with Some show ?thesis
    by (cases x)
       (auto simp add: serializeFailureField_def values_of_field_def bindE_Inl_iff Let_def
          split: if_splits)
qed

lemmas field_Inr =
  serializeField_Inr serializeArray_Inr serializeMap_Inr serializeFailureField_Inr

lemma command_values_cases:
  "v \<in> set (command_values c) \<Longrightarrow>
   (\<exists>hf args. scheduleActivity c = Some (ScheduleActivity hf args) \<and>
      (v \<in> set (values_of_map hf) \<or> v \<in> set (values_of_list args))) \<or>
   (\<exists>r fl. respondToQuery c = Some (RespondToQuery (Some r) fl) \<and>
      v \<in> set (values_of_field r)) \<or>
   (\<exists>r. completeWorkflowExecution c = Some (CompleteWorkflowExecution r) \<and>
      v \<in> set (values_of_field r)) \<or>
   (\<exists>a m hd sr.
      continueAsNewWorkflowExecution c = Some (ContinueAsNewWorkflowExecution a m hd sr) \<and>
      (v \<in> set (values_of_list a) \<or> v \<in> set (values_of_map m) \<or> v \<in> set (values_of_map hd)
         \<or> v \<in> set (values_of_map sr))) \<or>
   (\<exists>a m hd sr.
      startChildWorkflowExecution c = Some (StartChildWorkflowExecution a m hd sr) \<and>
      (v \<in> set (values_of_list a) \<or> v \<in> set (values_of_map m) \<or> v \<in> set (values_of_map hd)
         \<or> v \<in> set (values_of_map sr))) \<or>
   (\<exists>a. signalExternalWorkflowExecution c = Some (SignalExternalWorkflowExecution a) \<and>
      v \<in> set (values_of_list a))"
  unfolding command_values_def set_append Un_iff
  by (elim disjE;
      simp split: option.splits scheduleActivity.splits respondToQuery.splits
        completeWorkflowExecution.splits continueAsNewWorkflowExecution.splits
        startChildWorkflowExecution.splits signalExternalWorkflowExecution.splits;
      metis)

lemma command_errors_cases:
  "x \<in> set (command_errors c) \<Longrightarrow>
   (\<exists>r fl. respondToQuery c = Some (RespondToQuery r fl) \<and> x \<in> set (values_of_field fl)) \<or>
   (\<exists>fl. failWorkflowExecution c = Some (FailWorkflowExecution fl) \<and>
      x \<in> set (values_of_field fl))"
  unfolding command_errors_def set_append Un_iff
  by (elim disjE;
      simp split: option.splits respondToQuery.splits failWorkflowExecution.splits;
      metis)

lemma serialize_command_Inr_values:
  assumes "serialize_command h dc c = Inr c'" and "v \<in> set (command_values c)"
  shows "\<exists>p. toPayload dc v = Inr p"
proof -
  from assms(1) obtain sa rq cw ca sc se where
    sa: "under (serialize_scheduleActivity dc) (scheduleActivity c) = Inr sa" and
    rq: "under (serialize_respondToQuery h dc) (respondToQuery c) = Inr rq" and
    cw: "under (serialize_completeWorkflowExecution dc) (completeWorkflowExecution c) = Inr cw" and
    ca: "under (serialize_continueAsNewWorkflowExecution dc)
           (continueAsNewWorkflowExecution c) = Inr ca" and
    sc: "under (serialize_startChildWorkflowExecution dc) (startChildWorkflowExecution c) = Inr sc"
    and
    se: "under (serialize_signalExternalWorkflowExecution dc)
           (signalExternalWorkflowExecution c) = Inr se"
    unfolding serialize_command_def bindE_Inr_iff by blast
  from assms(2) consider
    (sa) hf args where "scheduleActivity c = Some (ScheduleActivity hf args)"
      "v \<in> set (values_of_map hf) \<or> v \<in> set (values_of_list args)"
    | (rq) r fl where "respondToQuery c = Some (RespondToQuery (Some r) fl)"
      "v \<in> set (values_of_field r)"
    | (cw) r where "completeWorkflowExecution c = Some (CompleteWorkflowExecution r)"
      "v \<in> set (values_of_field r)"
    | (ca) a m hd sr where
      "continueAsNewWorkflowExecution c = Some (ContinueAsNewWorkflowExecution a m hd sr)"
      "v \<in> set (values_of_list a) \<or> v \<in> set (values_of_map m) \<or> v \<in> set (values_of_map hd)
         \<or> v \<in> set (values_of_map sr)"
    | (sc) a m hd sr where
      "startChildWorkflowExecution c = Some (StartChildWorkflowExecution a m hd sr)"
      "v \<in> set (values_of_list a) \<or> v \<in> set (values_of_map m) \<or> v \<in> set (values_of_map hd)
         \<or> v \<in> set (values_of_map sr)"
    | (se) a where
      "signalExternalWorkflowExecution c = Some (SignalExternalWorkflowExecution a)"
      "v \<in> set (values_of_list a)"
    using command_values_cases [OF assms(2)] by blast
  then show ?thesis
  proof cases
    case sa
    from under_Inr [OF \<open>under (serialize_scheduleActivity dc) (scheduleActivity c) = Inr sa\<close> sa(1)]
      sa(2) show ?thesis
      by (auto simp add: serialize_scheduleActivity_def bindE_Inr_iff dest: field_Inr)
  next
    case rq
    from under_Inr [OF \<open>under (serialize_respondToQuery h dc) (respondToQuery c) = Inr rq\<close> rq(1)]
      rq(2) show ?thesis
      by (auto simp add: serialize_respondToQuery_def bindE_Inr_iff under_def dest: field_Inr)
  next
    case cw
    from under_Inr [OF \<open>under (serialize_completeWorkflowExecution dc)
        (completeWorkflowExecution c) = Inr cw\<close> cw(1)] cw(2) show ?thesis
      by (auto simp add: serialize_completeWorkflowExecution_def bindE_Inr_iff dest: field_Inr)
  next
    case ca
    from under_Inr [OF \<open>under (serialize_continueAsNewWorkflowExecution dc)
        (continueAsNewWorkflowExecution c) = Inr ca\<close> ca(1)] ca(2) show ?thesis
      by (auto simp add: serialize_continueAsNewWorkflowExecution_def bindE_Inr_iff
          dest: field_Inr)
  next
    case sc
    from under_Inr [OF \<open>under (serialize_startChildWorkflowExecution dc)
        (startChildWorkflowExecution c) = Inr sc\<close> sc(1)] sc(2) show ?thesis
      by (auto simp add: serialize_startChildWorkflowExecution_def bindE_Inr_iff
          dest: field_Inr)
  next
    case se
    from under_Inr [OF \<open>under (serialize_signalExternalWorkflowExecution dc)
        (signalExternalWorkflowExecution c) = Inr se\<close> se(1)] se(2) show ?thesis
      by (auto simp add: serialize_signalExternalWorkflowExecution_def bindE_Inr_iff
          dest: field_Inr)
  qed
qed

lemma serialize_command_Inr_errors:
  assumes "serialize_command h dc c = Inr c'" and "x \<in> set (command_errors c)"
    and "truthy_error x"
  shows "\<exists>f. errorToFailure h dc x = Inr f"
proof -
  from assms(1) obtain rq fw where
    rq: "under (serialize_respondToQuery h dc) (respondToQuery c) = Inr rq" and
    fw: "under (serialize_failWorkflowExecution h dc) (failWorkflowExecution c) = Inr fw"
    unfolding serialize_command_def bindE_Inr_iff by blast
  from assms(2) consider
    (rq) r fl where "respondToQuery c = Some (RespondToQuery r fl)" "x \<in> set (values_of_field fl)"
    | (fw) fl where "failWorkflowExecution c = Some (FailWorkflowExecution fl)"
      "x \<in> set (values_of_field fl)"
    using command_errors_cases [OF assms(2)] by blast
  then show ?thesis
  proof cases
    case rq
    from under_Inr [OF \<open>under (serialize_respondToQuery h dc) (respondToQuery c) = Inr rq\<close> rq(1)]
      rq(2) assms(3) show ?thesis
      by (auto simp add: serialize_respondToQuery_def bindE_Inr_iff dest: field_Inr)
  next
    case fw
    from under_Inr [OF \<open>under (serialize_failWorkflowExecution h dc)
        (failWorkflowExecution c) = Inr fw\<close> fw(1)] fw(2) assms(3) show ?thesis
      by (auto simp add: serialize_failWorkflowExecution_def bindE_Inr_iff dest: field_Inr)
  qed
qed

lemmas field_Inl =
  serializeField_Inl serializeArray_Inl serializeMap_Inl

lemma serialize_command_Inl:
  assumes "serialize_command h dc c = Inl e"
  shows "(\<exists>v \<in> set (command_values c). toPayload dc v = Inl e) \<or>
         (\<exists>x \<in> set (command_errors c). truthy_error x \<and> errorToFailure h dc x = Inl e)"
proof -
  from assms consider
    (sa) "under (serialize_scheduleActivity dc) (scheduleActivity c) = Inl e"
    | (rq) "under (serialize_respondToQuery h dc) (respondToQuery c) = Inl e"
    | (cw) "under (serialize_completeWorkflowExecution dc) (completeWorkflowExecution c) = Inl e"
    | (fw) "under (serialize_failWorkflowExecution h dc) (failWorkflowExecution c) = Inl e"
    | (ca) "under (serialize_continueAsNewWorkflowExecution dc)
              (continueAsNewWorkflowExecution c) = Inl e"
    | (sc) "under (serialize_startChildWorkflowExecution dc) (startChildWorkflowExecution c) = Inl e"
    | (se) "under (serialize_signalExternalWorkflowExecution dc)
              (signalExternalWorkflowExecution c) = Inl e"
    unfolding serialize_command_def bindE_Inl_iff by blast
  then show ?thesis
  proof cases
    case sa
    from under_Inl [OF sa] obtain hf args where
      m: "scheduleActivity c = Some (ScheduleActivity hf args)" and
      f: "serialize_scheduleActivity dc (ScheduleActivity hf args) = Inl e"
      by (metis scheduleActivity.exhaust)
    from f have "\<exists>v \<in> set (values_of_map hf @ values_of_list args). toPayload dc v = Inl e"
      by (auto simp add: serialize_scheduleActivity_def bindE_Inl_iff dest!: field_Inl)
    with m show ?thesis by (auto simp add: command_values_def)
  next
    case rq
    from under_Inl [OF rq] obtain r fl where
      m: "respondToQuery c = Some (RespondToQuery r fl)" and
      f: "serialize_respondToQuery h dc (RespondToQuery r fl) = Inl e"
      by (metis respondToQuery.exhaust)
    from f have "under (serializeField dc) r = Inl e \<or> serializeFailureField h dc fl = Inl e"
      by (auto simp add: serialize_respondToQuery_def bindE_Inl_iff)
    then show ?thesis
    proof
      assume "under (serializeField dc) r = Inl e"
      from under_Inl [OF this] obtain resp where "r = Some resp" "serializeField dc resp = Inl e"
        by blast
      with m serializeField_Inl [of dc resp e] show ?thesis
        by (auto simp add: command_values_def)
    next
      assume "serializeFailureField h dc fl = Inl e"
      from serializeFailureField_Inl [OF this] m show ?thesis
        by (auto simp add: command_errors_def)
    qed
  next
    case cw
    from under_Inl [OF cw] obtain r where
      m: "completeWorkflowExecution c = Some (CompleteWorkflowExecution r)" and
      f: "serialize_completeWorkflowExecution dc (CompleteWorkflowExecution r) = Inl e"
      by (metis completeWorkflowExecution.exhaust)
    from f have "\<exists>v \<in> set (values_of_field r). toPayload dc v = Inl e"
      by (auto simp add: serialize_completeWorkflowExecution_def bindE_Inl_iff dest!: field_Inl)
    with m show ?thesis by (auto simp add: command_values_def)
  next
    case fw
    from under_Inl [OF fw] obtain fl where
      m: "failWorkflowExecution c = Some (FailWorkflowExecution fl)" and
      f: "serialize_failWorkflowExecution h dc (FailWorkflowExecution fl) = Inl e"
      by (metis failWorkflowExecution.exhaust)
    from f have "serializeFailureField h dc fl = Inl e"
      by (auto simp add: serialize_failWorkflowExecution_def bindE_Inl_iff)
    from serializeFailureField_Inl [OF this] m show ?thesis
      by (auto simp add: command_errors_def)
  next
    case ca
    from under_Inl [OF ca] obtain a m hd sr where
      m: "continueAsNewWorkflowExecution c = Some (ContinueAsNewWorkflowExecution a m hd sr)" and
      f: "serialize_continueAsNewWorkflowExecution dc (ContinueAsNewWorkflowExecution a m hd sr)
            = Inl e"
      by (metis continueAsNewWorkflowExecution.exhaust)
    from f have "\<exists>v \<in> set (values_of_list a @ values_of_map m @ values_of_map hd
        @ values_of_map sr). toPayload dc v = Inl e"
      by (auto simp add: serialize_continueAsNewWorkflowExecution_def bindE_Inl_iff
          dest!: field_Inl)
    with m show ?thesis by (auto simp add: command_values_def)
  next
    case sc
    from under_Inl [OF sc] obtain a m hd sr where
      m: "startChildWorkflowExecution c = Some (StartChildWorkflowExecution a m hd sr)" and
      f: "serialize_startChildWorkflowExecution dc (StartChildWorkflowExecution a m hd sr) = Inl e"
      by (metis startChildWorkflowExecution.exhaust)
    from f have "\<exists>v \<in> set (values_of_list a @ values_of_map m @ values_of_map hd
        @ values_of_map sr). toPayload dc v = Inl e"
      by (auto simp add: serialize_startChildWorkflowExecution_def bindE_Inl_iff
          dest!: field_Inl)
    with m show ?thesis by (auto simp add: command_values_def)
  next
    case se
    from under_Inl [OF se] obtain a where
      m: "signalExternalWorkflowExecution c = Some (SignalExternalWorkflowExecution a)" and
      f: "serialize_signalExternalWorkflowExecution dc (SignalExternalWorkflowExecution a) = Inl e"
      by (metis signalExternalWorkflowExecution.exhaust)
    from f have "\<exists>v \<in> set (values_of_list a). toPayload dc v = Inl e"
      by (auto simp add: serialize_signalExternalWorkflowExecution_def bindE_Inl_iff
          dest!: field_Inl)
    with m show ?thesis by (auto simp add: command_values_def)
  qed
qed

lemma serializeCompletion_Inr:
  assumes "serializeCompletion h dc c = Inr c'"
  shows "(\<forall>v \<in> set (completion_values c). \<exists>p. toPayload dc v = Inr p) \<and>
         (\<forall>x \<in> set (completion_errors c). truthy_error x \<longrightarrow> (\<exists>f. errorToFailure h dc x = Inr f))"
proof -
  from assms obtain cs' fl' where
    cs: "under (mapE (under (serialize_command h dc))) (commands c) = Inr cs'" and
    fl: "serializeFailureField h dc (failed c) = Inr fl'"
    unfolding serializeCompletion_def bindE_Inr_iff by blast
  have each: "\<exists>y. serialize_command h dc x = Inr y"
    if "Some x \<in> set (values_of_list (commands c))" for x
  proof -
    from that obtain xs where xs: "commands c = Some xs" "Some x \<in> set xs"
      by (cases "commands c") (auto simp add: values_of_list_def)
    from under_Inr [OF cs xs(1)] obtain ys where "mapE (under (serialize_command h dc)) xs = Inr ys"
      by blast
    then have "list_all2 (\<lambda>x y. under (serialize_command h dc) x = Inr y) xs ys"
      by (rule mapE_Inr)
    with xs(2) obtain y where "under (serialize_command h dc) (Some x) = Inr y"
      by (auto simp add: in_set_conv_nth list_all2_conv_all_nth)
    then show ?thesis by (auto simp add: under_def bindE_Inr_iff)
  qed
  show ?thesis
  proof (intro conjI ballI impI)
    fix v assume "v \<in> set (completion_values c)"
    then obtain x where "Some x \<in> set (values_of_list (commands c))" "v \<in> set (command_values x)"
      by (auto simp add: completion_values_def split: option.splits)
    with each serialize_command_Inr_values show "\<exists>p. toPayload dc v = Inr p" by blast
  next
    fix x assume x: "x \<in> set (completion_errors c)" and t: "truthy_error x"
    from x consider
      (cmd) cm where "Some cm \<in> set (values_of_list (commands c))" "x \<in> set (command_errors cm)"
      | (top) "x \<in> set (values_of_field (failed c))"
      by (auto simp add: completion_errors_def split: option.splits)
    then show "\<exists>f. errorToFailure h dc x = Inr f"
    proof cases
      case cmd
      with each serialize_command_Inr_errors t show ?thesis by blast
    next
      case top
      from serializeFailureField_Inr [OF fl top t] show ?thesis .
    qed
  qed
qed

lemma serializeCompletion_Inl:
  assumes "serializeCompletion h dc c = Inl e"
  shows "(\<exists>v \<in> set (completion_values c). toPayload dc v = Inl e) \<or>
         (\<exists>x \<in> set (completion_errors c). truthy_error x \<and> errorToFailure h dc x = Inl e)"
proof -
  from assms consider
    (cmds) "under (mapE (under (serialize_command h dc))) (commands c) = Inl e"
    | (top) "serializeFailureField h dc (failed c) = Inl e"
    unfolding serializeCompletion_def bindE_Inl_iff by blast
  then show ?thesis
  proof cases
    case cmds
    from under_Inl [OF cmds] obtain xs where xs: "commands c = Some xs"
      "mapE (under (serialize_command h dc)) xs = Inl e" by blast
    from mapE_Inl [OF xs(2)] obtain ox where ox: "ox \<in> set xs"
      "under (serialize_command h dc) ox = Inl e" by blast
    from under_Inl [OF ox(2)] obtain x where x: "ox = Some x" "serialize_command h dc x = Inl e"
      by blast
    from ox(1) x(1) xs(1) have mem: "Some x \<in> set (values_of_list (commands c))"
      by (simp add: values_of_list_def)
    from serialize_command_Inl [OF x(2)] show ?thesis
    proof
      assume "\<exists>v \<in> set (command_values x). toPayload dc v = Inl e"
      with mem have "\<exists>v \<in> set (completion_values c). toPayload dc v = Inl e"
        by (force simp add: completion_values_def)
      then show ?thesis ..
    next
      assume "\<exists>y \<in> set (command_errors x). truthy_error y \<and> errorToFailure h dc y = Inl e"
      with mem have "\<exists>y \<in> set (completion_errors c). truthy_error y \<and> errorToFailure h dc y = Inl e"
        by (force simp add: completion_errors_def)
      then show ?thesis ..
    qed
  next
    case top
    from serializeFailureField_Inl [OF top] show ?thesis
      by (auto simp add: completion_errors_def)
  qed
qed

text \<open>
  Claim C6. When a payload-bearing field of a command holds a value that the data
  converter cannot encode, or a failure-bearing field (of a command, or the \<open>failed\<close>
  member) holds an error that \<open>errorToFailure\<close> cannot convert, \<open>serializeCompletion\<close>
  throws, and what it throws is the error of one of the failing fields: there is no
  completion, encoded in part or otherwise. (A falsy thrown value is not encoded at all.)
\<close>

theorem serializeCompletion_atomic:
  "(\<exists>v \<in> set (completion_values c). isl (toPayload dc v)) \<or>
   (\<exists>x \<in> set (completion_errors c). truthy_error x \<and> isl (errorToFailure h dc x)) \<Longrightarrow>
   \<exists>err. serializeCompletion h dc c = Inl err \<and>
     ((\<exists>v \<in> set (completion_values c). toPayload dc v = Inl err) \<or>
      (\<exists>x \<in> set (completion_errors c). truthy_error x \<and> errorToFailure h dc x = Inl err))"
proof (cases "serializeCompletion h dc c")
  case (Inl err)
  assume "(\<exists>v \<in> set (completion_values c). isl (toPayload dc v)) \<or>
   (\<exists>x \<in> set (completion_errors c). truthy_error x \<and> isl (errorToFailure h dc x))"
  from serializeCompletion_Inl [OF Inl] Inl show ?thesis by blast
next
  case (Inr c')
  assume bad: "(\<exists>v \<in> set (completion_values c). isl (toPayload dc v)) \<or>
   (\<exists>x \<in> set (completion_errors c). truthy_error x \<and> isl (errorToFailure h dc x))"
  from serializeCompletion_Inr [OF Inr] bad have False
    by (auto simp add: isl_def)
  then show ?thesis ..
qed

theorem serializeCompletion_atomic_witness:
  "serializeCompletion simple_host
     (CompositeDataConverter [UndefinedDataConverter, BinaryDataConverter])
     \<lparr> completion_runId = Some ''run-1'',
       commands = Some
         [Some (timer_command \<lparr> completeWorkflowExecution :=
                  Some (CompleteWorkflowExecution (Some (Uint8Array ''ok''))) \<rparr>),
          Some (timer_command \<lparr> scheduleActivity :=
                  Some (ScheduleActivity None (Some [Str ''unsupported''])) \<rparr>)],
       failed = None \<rparr> =
   Inl (ValueError ''Cannot serialize'')"
proof -
  let ?dc = "CompositeDataConverter [UndefinedDataConverter, BinaryDataConverter]"
  let ?c = "\<lparr> completion_runId = Some ''run-1'',
       commands = Some
         [Some (timer_command \<lparr> completeWorkflowExecution :=
                  Some (CompleteWorkflowExecution (Some (Uint8Array ''ok''))) \<rparr>),
          Some (timer_command \<lparr> scheduleActivity :=
                  Some (ScheduleActivity None (Some [Str ''unsupported''])) \<rparr>)],
       failed = None \<rparr> :: (jsval, DeserializedFailure jserror) completion"
  have vals: "completion_values ?c = [Uint8Array ''ok'', Str ''unsupported'']"
    by (simp add: completion_values_def command_values_def values_of_list_def values_of_map_def
        values_of_field_def timer_command_def)
  have errs: "completion_errors ?c = []"
    by (simp add: completion_errors_def command_errors_def values_of_list_def
        values_of_field_def timer_command_def)
  have ok: "\<not> isl (toPayload ?dc (Uint8Array ''ok''))"
    by (simp add: CompositeDataConverter_def UndefinedDataConverter_def BinaryDataConverter_def)
  have bad: "toPayload ?dc (Str ''unsupported'') = Inl (ValueError ''Cannot serialize'')"
    by (simp add: CompositeDataConverter_def UndefinedDataConverter_def BinaryDataConverter_def)
  have hyp: "(\<exists>v \<in> set (completion_values ?c). isl (toPayload ?dc v)) \<or>
     (\<exists>x \<in> set (completion_errors ?c). truthy_error x \<and> isl (errorToFailure simple_host ?dc x))"
    unfolding vals using bad by simp
  from serializeCompletion_atomic [OF hyp] obtain err where
    res: "serializeCompletion simple_host ?dc ?c = Inl err" and
    src: "(\<exists>v \<in> set (completion_values ?c). toPayload ?dc v = Inl err) \<or>
      (\<exists>x \<in> set (completion_errors ?c). truthy_error x \<and> errorToFailure simple_host ?dc x = Inl err)"
    by blast
  from src ok bad have "err = ValueError ''Cannot serialize''"
    unfolding vals errs by auto
  with res show ?thesis by simp
qed

end
